theory Spec2Isabelle
  imports Main "HOL-Library.AList"
begin

section \<open>Python values, attribute dictionaries and faults\<close>

text \<open>
  The module \<open>PICMI_Python/diagnostics.py\<close> declares five classes whose only operation is
  \<open>__init__\<close>.  The constructors never compute with their arguments: a value is stored,
  compared with \<open>None\<close> by identity, or (for \<open>grid\<close>) asked for an attribute.

  A fault is an exception class.  \<open>TypeError\<close> is what a call raises when its arguments do
  not fit the signature, \<open>AttributeError\<close> what the read of a missing attribute raises; any
  other exception is \<open>OtherError\<close> with the name of its class.
\<close>

datatype error = TypeError | AttributeError | OtherError string

text \<open>
  The value domain has \<open>None\<close>, integers, strings, lists, and two kinds of objects.  A
  \<open>PyObj\<close> is a plain attribute holder: an association list from attribute names to
  values.  A \<open>PyComputed\<close> is an object whose attributes are computed when they are read
  (properties, \<open>__getattr__\<close>): for each name, the read returns a value or raises a fault of
  the object's choosing.
\<close>

datatype pyval =
    PyNone
  | PyInt int
  | PyStr string
  | PyList "pyval list"
  | PyObj "(string \<times> pyval) list"
  | PyComputed "(string \<times> (error + pyval)) list"

type_synonym attrs = "(string \<times> pyval) list"

text \<open>
  \<open>obj.name\<close>: a plain object yields the attribute when its dictionary has it and raises
  \<open>AttributeError\<close> otherwise; an object with computed attributes yields or raises what the
  computation of that attribute does, and raises \<open>AttributeError\<close> for a name it does not
  have.  \<open>None\<close>, integers, strings and lists have none of the three attributes the module
  reads (\<open>number_of_cells\<close>, \<open>lower_bound\<close>, \<open>upper_bound\<close>), so for them the read raises
  \<open>AttributeError\<close> as well.
\<close>

fun getattr :: "pyval \<Rightarrow> string \<Rightarrow> error + pyval" where
  "getattr (PyObj d) name =
     (case map_of d name of None \<Rightarrow> Inl AttributeError | Some v \<Rightarrow> Inr v)"
| "getattr (PyComputed d) name =
     (case map_of d name of None \<Rightarrow> Inl AttributeError | Some res \<Rightarrow> res)"
| "getattr v name = Inl AttributeError"

text \<open>\<open>self.name = v\<close> on the instance dictionary.\<close>

definition setattr :: "attrs \<Rightarrow> string \<Rightarrow> pyval \<Rightarrow> attrs" where
  "setattr self name v = AList.update name v self"

section \<open>Calling a constructor: argument binding\<close>

text \<open>
  A signature \<open>def __init__(self, p1, p2 = d2, ..., **kw)\<close> is the list of its named
  parameters, each with its default when it has one.  A call supplies positional arguments
  and keyword arguments.  Python binds the positional arguments to the parameters in order
  and the keyword arguments by name; a parameter that receives nothing takes its default.
  The call raises \<open>TypeError\<close> when there are more positional arguments than parameters,
  when a parameter receives both a positional and a keyword argument, when a keyword is
  repeated, or when a parameter without default receives nothing.  Keyword arguments that
  name no parameter are collected, in order, in the dictionary \<open>kw\<close>.
\<close>

type_synonym signature = "(string \<times> pyval option) list"

fun bind_params :: "signature \<Rightarrow> pyval list \<Rightarrow> attrs \<Rightarrow> error + pyval list" where
  "bind_params [] [] kws = Inr []"
| "bind_params [] (a # pos) kws = Inl TypeError"
| "bind_params ((name, dflt) # sig) (a # pos) kws =
     (if name \<in> set (map fst kws) then Inl TypeError
      else case bind_params sig pos kws of
             Inl e \<Rightarrow> Inl e
           | Inr vals \<Rightarrow> Inr (a # vals))"
| "bind_params ((name, dflt) # sig) [] kws =
     (case (case map_of kws name of Some v \<Rightarrow> Some v | None \<Rightarrow> dflt) of
        None \<Rightarrow> Inl TypeError
      | Some v \<Rightarrow>
          (case bind_params sig [] kws of
             Inl e \<Rightarrow> Inl e
           | Inr vals \<Rightarrow> Inr (v # vals)))"

definition bind_args :: "signature \<Rightarrow> pyval list \<Rightarrow> attrs \<Rightarrow> error + (pyval list \<times> attrs)" where
  "bind_args sig pos kws =
     (if distinct (map fst kws)
      then case bind_params sig pos kws of
             Inl e \<Rightarrow> Inl e
           | Inr vals \<Rightarrow> Inr (vals, filter (\<lambda>(k, v). k \<notin> set (map fst sig)) kws)
      else Inl TypeError)"

section \<open>The shared initialisation helper\<close>

text \<open>
  Modelled from the spec: \<open>handle_init\<close> is a method of the base class \<open>_ClassWithInit\<close>,
  imported from \<open>.base\<close>; that module is not among the source files.  The specification says
  that every constructor hands its leftover named arguments to this shared helper, that all
  entities "accept and store arbitrary additional named attributes (extensibility escape
  hatch) rather than rejecting unknown configuration", and that extra keyword data "is
  retrievable afterward without raising".  Accordingly the helper stores each leftover
  \<open>(name, value)\<close> as an attribute of the instance and never raises.
\<close>

definition handle_init :: "attrs \<Rightarrow> attrs \<Rightarrow> error + attrs" where
  "handle_init self kw = Inr (fold (\<lambda>(k, v) s. setattr s k v) kw self)"

section \<open>The constructors\<close>

text \<open>
  The result of a successful construction: the instance's attribute dictionary, and the
  names of the attributes of \<open>grid\<close> that the constructor read, in order.
\<close>

record diagnostic =
  attrs :: "(string \<times> pyval) list"
  grid_reads :: "string list"

text \<open>
  The statement \<open>if x is None: x = grid.x\<close>: the grid is read only when the argument is
  \<open>None\<close>; a failing read ends the construction with the fault that the read raised.
\<close>

definition default_from_grid ::
  "pyval \<Rightarrow> string \<Rightarrow> pyval \<Rightarrow> string list \<Rightarrow> error + (pyval \<times> string list)" where
  "default_from_grid grid name arg reads =
     (if arg = PyNone
      then (case getattr grid name of
              Inl e \<Rightarrow> Inl e
            | Inr v \<Rightarrow> Inr (v, reads @ [name]))
      else Inr (arg, reads))"

subsection \<open>Simulation frame diagnostics\<close>

definition PICMI_FieldDiagnostic_params :: signature where
  "PICMI_FieldDiagnostic_params =
     [(''self'', None),
      (''grid'', None),
      (''period'', Some (PyInt 1)),
      (''data_list'', Some (PyList [PyStr ''rho'', PyStr ''E'', PyStr ''B'', PyStr ''J''])),
      (''write_dir'', Some PyNone),
      (''step_min'', Some PyNone),
      (''step_max'', Some PyNone),
      (''number_of_cells'', Some PyNone),
      (''lower_bound'', Some PyNone),
      (''upper_bound'', Some PyNone)]"

definition PICMI_FieldDiagnostic_init ::
  "attrs \<Rightarrow> pyval \<Rightarrow> pyval \<Rightarrow> pyval \<Rightarrow> pyval \<Rightarrow> pyval \<Rightarrow> pyval \<Rightarrow>
   pyval \<Rightarrow> pyval \<Rightarrow> pyval \<Rightarrow> attrs \<Rightarrow> error + diagnostic" where
  "PICMI_FieldDiagnostic_init self grid period data_list write_dir step_min step_max
       number_of_cells lower_bound upper_bound kw =
     (let self = setattr self ''grid'' grid;
          self = setattr self ''period'' period;
          self = setattr self ''data_list'' data_list;
          self = setattr self ''write_dir'' write_dir;
          self = setattr self ''step_min'' step_min;
          self = setattr self ''step_max'' step_max
      in case default_from_grid grid ''number_of_cells'' number_of_cells [] of
           Inl e \<Rightarrow> Inl e
         | Inr (number_of_cells, reads) \<Rightarrow>
       (case default_from_grid grid ''lower_bound'' lower_bound reads of
           Inl e \<Rightarrow> Inl e
         | Inr (lower_bound, reads) \<Rightarrow>
       (case default_from_grid grid ''upper_bound'' upper_bound reads of
           Inl e \<Rightarrow> Inl e
         | Inr (upper_bound, reads) \<Rightarrow>
           (let self = setattr self ''number_of_cells'' number_of_cells;
                self = setattr self ''lower_bound'' lower_bound;
                self = setattr self ''upper_bound'' upper_bound
            in case handle_init self kw of
                 Inl e \<Rightarrow> Inl e
               | Inr self \<Rightarrow> Inr \<lparr>attrs = self, grid_reads = reads\<rparr>))))"

definition PICMI_ElectrostaticFieldDiagnostic_params :: signature where
  "PICMI_ElectrostaticFieldDiagnostic_params =
     [(''self'', None),
      (''grid'', None),
      (''period'', Some (PyInt 1)),
      (''data_list'', Some (PyList [PyStr ''rho'', PyStr ''phi''])),
      (''write_dir'', Some PyNone),
      (''step_min'', Some PyNone),
      (''step_max'', Some PyNone),
      (''number_of_cells'', Some PyNone),
      (''lower_bound'', Some PyNone),
      (''upper_bound'', Some PyNone)]"

definition PICMI_ElectrostaticFieldDiagnostic_init ::
  "attrs \<Rightarrow> pyval \<Rightarrow> pyval \<Rightarrow> pyval \<Rightarrow> pyval \<Rightarrow> pyval \<Rightarrow> pyval \<Rightarrow>
   pyval \<Rightarrow> pyval \<Rightarrow> pyval \<Rightarrow> attrs \<Rightarrow> error + diagnostic" where
  "PICMI_ElectrostaticFieldDiagnostic_init self grid period data_list write_dir step_min step_max
       number_of_cells lower_bound upper_bound kw =
     (let self = setattr self ''grid'' grid;
          self = setattr self ''period'' period;
          self = setattr self ''data_list'' data_list;
          self = setattr self ''write_dir'' write_dir;
          self = setattr self ''step_min'' step_min;
          self = setattr self ''step_max'' step_max
      in case default_from_grid grid ''number_of_cells'' number_of_cells [] of
           Inl e \<Rightarrow> Inl e
         | Inr (number_of_cells, reads) \<Rightarrow>
       (case default_from_grid grid ''lower_bound'' lower_bound reads of
           Inl e \<Rightarrow> Inl e
         | Inr (lower_bound, reads) \<Rightarrow>
       (case default_from_grid grid ''upper_bound'' upper_bound reads of
           Inl e \<Rightarrow> Inl e
         | Inr (upper_bound, reads) \<Rightarrow>
           (let self = setattr self ''number_of_cells'' number_of_cells;
                self = setattr self ''lower_bound'' lower_bound;
                self = setattr self ''upper_bound'' upper_bound
            in case handle_init self kw of
                 Inl e \<Rightarrow> Inl e
               | Inr self \<Rightarrow> Inr \<lparr>attrs = self, grid_reads = reads\<rparr>))))"

definition PICMI_ParticleDiagnostic_params :: signature where
  "PICMI_ParticleDiagnostic_params =
     [(''self'', None),
      (''period'', Some (PyInt 1)),
      (''species'', Some PyNone),
      (''data_list'',
         Some (PyList [PyStr ''position'', PyStr ''momentum'', PyStr ''weighting''])),
      (''write_dir'', Some PyNone),
      (''step_min'', Some PyNone),
      (''step_max'', Some PyNone)]"

definition PICMI_ParticleDiagnostic_init ::
  "attrs \<Rightarrow> pyval \<Rightarrow> pyval \<Rightarrow> pyval \<Rightarrow> pyval \<Rightarrow> pyval \<Rightarrow> pyval \<Rightarrow> attrs \<Rightarrow>
   error + diagnostic" where
  "PICMI_ParticleDiagnostic_init self period species data_list write_dir step_min step_max kw =
     (let self = setattr self ''period'' period;
          self = setattr self ''species'' species;
          self = setattr self ''data_list'' data_list;
          self = setattr self ''write_dir'' write_dir;
          self = setattr self ''step_min'' step_min;
          self = setattr self ''step_max'' step_max
      in case handle_init self kw of
           Inl e \<Rightarrow> Inl e
         | Inr self \<Rightarrow> Inr \<lparr>attrs = self, grid_reads = []\<rparr>)"

subsection \<open>Lab frame diagnostics\<close>

definition PICMI_LabFrameFieldDiagnostic_params :: signature where
  "PICMI_LabFrameFieldDiagnostic_params =
     [(''self'', None),
      (''num_snapshots'', None),
      (''dt_snapshots'', None),
      (''data_list'', Some (PyList [PyStr ''rho'', PyStr ''E'', PyStr ''B'', PyStr ''J''])),
      (''write_dir'', Some PyNone)]"

definition PICMI_LabFrameFieldDiagnostic_init ::
  "attrs \<Rightarrow> pyval \<Rightarrow> pyval \<Rightarrow> pyval \<Rightarrow> pyval \<Rightarrow> attrs \<Rightarrow> error + diagnostic" where
  "PICMI_LabFrameFieldDiagnostic_init self num_snapshots dt_snapshots data_list write_dir kw =
     (let self = setattr self ''num_snapshots'' num_snapshots;
          self = setattr self ''dt_snapshots'' dt_snapshots;
          self = setattr self ''data_list'' data_list;
          self = setattr self ''write_dir'' write_dir
      in case handle_init self kw of
           Inl e \<Rightarrow> Inl e
         | Inr self \<Rightarrow> Inr \<lparr>attrs = self, grid_reads = []\<rparr>)"

definition PICMI_LabFrameParticleDiagnostic_params :: signature where
  "PICMI_LabFrameParticleDiagnostic_params =
     [(''self'', None),
      (''num_snapshots'', None),
      (''dt_snapshots'', None),
      (''species'', Some PyNone),
      (''data_list'',
         Some (PyList [PyStr ''position'', PyStr ''momentum'', PyStr ''weighting''])),
      (''write_dir'', Some PyNone)]"

definition PICMI_LabFrameParticleDiagnostic_init ::
  "attrs \<Rightarrow> pyval \<Rightarrow> pyval \<Rightarrow> pyval \<Rightarrow> pyval \<Rightarrow> pyval \<Rightarrow> attrs \<Rightarrow> error + diagnostic" where
  "PICMI_LabFrameParticleDiagnostic_init self num_snapshots dt_snapshots species data_list
       write_dir kw =
     (let self = setattr self ''num_snapshots'' num_snapshots;
          self = setattr self ''dt_snapshots'' dt_snapshots;
          self = setattr self ''species'' species;
          self = setattr self ''data_list'' data_list;
          self = setattr self ''write_dir'' write_dir
      in case handle_init self kw of
           Inl e \<Rightarrow> Inl e
         | Inr self \<Rightarrow> Inr \<lparr>attrs = self, grid_reads = []\<rparr>)"

subsection \<open>Calling a class\<close>

text \<open>
  Calling a class allocates an instance with an empty attribute dictionary, passes it as the
  first positional argument (\<open>self\<close>) in front of the caller's arguments, binds the arguments
  to the signature of \<open>__init__\<close> and runs its body.  A fault raised while binding or in the
  body reaches the caller: no constructor has a \<open>try\<close> statement.  In \<open>init_of\<close> the last
  case of each match is never taken, since binding returns one value for each parameter and
  the first of them is the instance (\<open>construct_Inr\<close> below).
\<close>

datatype diagnostic_class =
    PICMI_FieldDiagnostic
  | PICMI_ElectrostaticFieldDiagnostic
  | PICMI_ParticleDiagnostic
  | PICMI_LabFrameFieldDiagnostic
  | PICMI_LabFrameParticleDiagnostic

fun params_of :: "diagnostic_class \<Rightarrow> signature" where
  "params_of PICMI_FieldDiagnostic = PICMI_FieldDiagnostic_params"
| "params_of PICMI_ElectrostaticFieldDiagnostic = PICMI_ElectrostaticFieldDiagnostic_params"
| "params_of PICMI_ParticleDiagnostic = PICMI_ParticleDiagnostic_params"
| "params_of PICMI_LabFrameFieldDiagnostic = PICMI_LabFrameFieldDiagnostic_params"
| "params_of PICMI_LabFrameParticleDiagnostic = PICMI_LabFrameParticleDiagnostic_params"

definition init_of :: "diagnostic_class \<Rightarrow> pyval list \<Rightarrow> attrs \<Rightarrow> error + diagnostic" where
  "init_of cls vals kw =
     (case cls of
        PICMI_FieldDiagnostic \<Rightarrow>
          (case vals of
             [PyObj self, grid, period, data_list, write_dir, step_min, step_max,
              number_of_cells, lower_bound, upper_bound] \<Rightarrow>
               PICMI_FieldDiagnostic_init self grid period data_list write_dir step_min step_max
                 number_of_cells lower_bound upper_bound kw
           | _ \<Rightarrow> Inl TypeError)
      | PICMI_ElectrostaticFieldDiagnostic \<Rightarrow>
          (case vals of
             [PyObj self, grid, period, data_list, write_dir, step_min, step_max,
              number_of_cells, lower_bound, upper_bound] \<Rightarrow>
               PICMI_ElectrostaticFieldDiagnostic_init self grid period data_list write_dir
                 step_min step_max number_of_cells lower_bound upper_bound kw
           | _ \<Rightarrow> Inl TypeError)
      | PICMI_ParticleDiagnostic \<Rightarrow>
          (case vals of
             [PyObj self, period, species, data_list, write_dir, step_min, step_max] \<Rightarrow>
               PICMI_ParticleDiagnostic_init self period species data_list write_dir
                 step_min step_max kw
           | _ \<Rightarrow> Inl TypeError)
      | PICMI_LabFrameFieldDiagnostic \<Rightarrow>
          (case vals of
             [PyObj self, num_snapshots, dt_snapshots, data_list, write_dir] \<Rightarrow>
               PICMI_LabFrameFieldDiagnostic_init self num_snapshots dt_snapshots data_list
                 write_dir kw
           | _ \<Rightarrow> Inl TypeError)
      | PICMI_LabFrameParticleDiagnostic \<Rightarrow>
          (case vals of
             [PyObj self, num_snapshots, dt_snapshots, species, data_list, write_dir] \<Rightarrow>
               PICMI_LabFrameParticleDiagnostic_init self num_snapshots dt_snapshots species
                 data_list write_dir kw
           | _ \<Rightarrow> Inl TypeError))"

definition construct :: "diagnostic_class \<Rightarrow> pyval list \<Rightarrow> attrs \<Rightarrow> error + diagnostic" where
  "construct cls pos kws =
     (case bind_args (params_of cls) (PyObj [] # pos) kws of
        Inl e \<Rightarrow> Inl e
      | Inr (vals, kw) \<Rightarrow> init_of cls vals kw)"

text \<open>
  The argument a call supplies for a parameter, positionally or by keyword; \<open>None\<close> when
  the call omits it.
\<close>

definition supplied :: "diagnostic_class \<Rightarrow> pyval list \<Rightarrow> attrs \<Rightarrow> string \<Rightarrow> pyval option" where
  "supplied cls pos kws name =
     (case map_of (zip (map fst (params_of cls)) (PyObj [] # pos)) name of
        Some v \<Rightarrow> Some v
      | None \<Rightarrow> map_of kws name)"

section \<open>Auxiliary facts\<close>

subsection \<open>Attribute access and assignment\<close>

text \<open>
  An assignment updates the dictionary at that one name.  Defaulting from the grid returns
  the argument itself or what the grid has, and fails exactly when the argument is \<open>None\<close>
  and the read of the grid fails, with the fault of that read.
\<close>

lemma map_of_setattr: "map_of (setattr self name v) = (map_of self)(name \<mapsto> v)"
  by (simp add: setattr_def update_conv')

lemma default_from_grid_Inr:
  "(default_from_grid grid name arg reads = Inr (v, reads')) =
   (if arg = PyNone then getattr grid name = Inr v \<and> reads' = reads @ [name]
    else v = arg \<and> reads' = reads)"
  by (auto simp: default_from_grid_def split: sum.splits)

lemma default_from_grid_Inl:
  "(default_from_grid grid name arg reads = Inl e) =
   (arg = PyNone \<and> getattr grid name = Inl e)"
  by (auto simp: default_from_grid_def split: sum.splits)

subsection \<open>Argument binding\<close>

text \<open>
  Binding can only fail with \<open>TypeError\<close>.  When it succeeds there is one value per
  parameter: the argument the call supplies for it or, when the call supplies none, the
  parameter's default.  Binding looks at the keyword arguments only at the names of the
  parameters, and the leftover dictionary holds exactly the other keywords.
\<close>

lemma bind_params_error: "bind_params sig pos kws = Inl e \<Longrightarrow> e = TypeError"
  by (induction sig pos kws rule: bind_params.induct) (auto split: if_splits sum.splits option.splits)

lemma bind_args_error: "bind_args sig pos kws = Inl e \<Longrightarrow> e = TypeError"
  by (auto simp: bind_args_def split: if_splits sum.splits dest: bind_params_error)

lemma bind_params_length: "bind_params sig pos kws = Inr vals \<Longrightarrow> length vals = length sig"
  by (induction sig pos kws arbitrary: vals rule: bind_params.induct) (auto split: if_splits sum.splits option.splits)

lemma bind_params_self:
  "bind_params ((n, d) # sig) (a # pos) kws = Inr vals \<Longrightarrow> \<exists>vs. vals = a # vs"
  by (auto split: if_splits sum.splits)

lemma key_mem_iff: "(name \<in> set (map fst kws)) = (map_of kws name \<noteq> None)"
  by (simp add: map_of_eq_None_iff)

lemma bind_params_cong:
  "(\<And>n. n \<in> set (map fst sig) \<Longrightarrow> map_of kws' n = map_of kws n) \<Longrightarrow>
   bind_params sig pos kws' = bind_params sig pos kws"
proof (induction sig pos kws arbitrary: kws' rule: bind_params.induct)
  case (3 name dflt sig a pos kws)
  have m: "(name \<in> set (map fst kws')) = (name \<in> set (map fst kws))"
    using "3.prems"[of name] by (simp only: key_mem_iff) simp
  show ?case
  proof (cases "name \<in> set (map fst kws)")
    case True
    then show ?thesis using m by simp
  next
    case False
    then have "bind_params sig pos kws' = bind_params sig pos kws"
      using "3.IH"[of kws'] "3.prems" by simp
    then show ?thesis using m by simp
  qed
next
  case (4 name dflt sig kws)
  have m: "map_of kws' name = map_of kws name" using "4.prems"[of name] by simp
  show ?case
  proof (cases "case map_of kws name of Some v \<Rightarrow> Some v | None \<Rightarrow> dflt")
    case None
    then show ?thesis using m by simp
  next
    case (Some v)
    then have "bind_params sig [] kws' = bind_params sig [] kws"
      using "4.IH"[of v kws'] "4.prems" by simp
    then show ?thesis using m Some by simp
  qed
qed simp_all

lemma bind_params_value:
  "bind_params sig pos kws = Inr vals \<Longrightarrow> distinct (map fst sig) \<Longrightarrow> (name, dflt) \<in> set sig \<Longrightarrow>
   \<exists>v. map_of (zip (map fst sig) vals) name = Some v \<and>
       (case (case map_of (zip (map fst sig) pos) name of Some a \<Rightarrow> Some a | None \<Rightarrow> map_of kws name) of
          Some a \<Rightarrow> v = a
        | None \<Rightarrow> dflt = Some v)"
proof (induction sig pos kws arbitrary: vals rule: bind_params.induct)
  case (3 n d sig a pos kws)
  from "3.prems"(1) obtain vs where
    nk: "n \<notin> set (map fst kws)" and vs: "bind_params sig pos kws = Inr vs" and vals: "vals = a # vs"
    by (auto split: if_splits sum.splits)
  show ?case
  proof (cases "name = n")
    case True
    then show ?thesis using vals by simp
  next
    case False
    then have "(name, dflt) \<in> set sig" using "3.prems"(3) by simp
    then show ?thesis
      using "3.IH"[OF nk vs] "3.prems"(2) False vals by simp
  qed
next
  case (4 n d sig kws)
  from "4.prems"(1) obtain v0 vs where
    v0: "(case map_of kws n of Some v \<Rightarrow> Some v | None \<Rightarrow> d) = Some v0"
    and vs: "bind_params sig [] kws = Inr vs" and vals: "vals = v0 # vs"
    by (auto split: option.splits sum.splits)
  show ?case
  proof (cases "name = n")
    case True
    then have "dflt = d"
      using "4.prems"(2,3) by (auto simp: rev_image_eqI)
    then show ?thesis using True vals v0 by (auto split: option.splits)
  next
    case False
    then have "(name, dflt) \<in> set sig" using "4.prems"(3) by simp
    then show ?thesis
      using "4.IH"[OF v0 vs] "4.prems"(2) False vals by simp
  qed
qed simp_all

lemma map_of_filter_keys:
  "map_of (filter (\<lambda>(k, v). k \<notin> S) kws) k = (if k \<in> S then None else map_of kws k)"
  by (induction kws) auto

lemma bind_args_Inr:
  assumes "bind_args sig pos kws = Inr (vals, kw)"
  shows "bind_params sig pos kws = Inr vals"
    and "distinct (map fst kws)"
    and "distinct (map fst kw)"
    and "map_of kw k = (if k \<in> set (map fst sig) then None else map_of kws k)"
proof -
  from assms show "bind_params sig pos kws = Inr vals" and d: "distinct (map fst kws)"
    by (auto simp: bind_args_def split: if_splits sum.splits)
  from assms have kw: "kw = filter (\<lambda>(k, v). k \<notin> set (map fst sig)) kws"
    by (auto simp: bind_args_def split: if_splits sum.splits)
  show "map_of kw k = (if k \<in> set (map fst sig) then None else map_of kws k)"
    unfolding kw by (rule map_of_filter_keys)
  show "distinct (map fst kw)"
    using d unfolding kw by (simp add: distinct_map_filter)
qed

lemma bind_args_append:
  assumes d: "distinct (map fst (kws @ extra))"
    and x: "\<forall>k \<in> set (map fst extra). k \<notin> set (map fst sig)"
  shows "bind_args sig pos (kws @ extra) =
     (case bind_args sig pos kws of
        Inl e \<Rightarrow> Inl e
      | Inr (vals, kw) \<Rightarrow> Inr (vals, kw @ extra))"
proof -
  have m: "\<And>n. n \<in> set (map fst sig) \<Longrightarrow> map_of (kws @ extra) n = map_of kws n"
  proof -
    fix n assume "n \<in> set (map fst sig)"
    then have "n \<notin> set (map fst extra)" using x by blast
    then have "map_of extra n = None" by (simp add: map_of_eq_None_iff)
    then show "map_of (kws @ extra) n = map_of kws n"
      by (simp add: map_add_def split: option.splits)
  qed
  have bp: "bind_params sig pos (kws @ extra) = bind_params sig pos kws"
    by (rule bind_params_cong) (rule m)
  have f: "filter (\<lambda>(k, v). k \<notin> set (map fst sig)) extra = extra"
    using x by (force simp: filter_id_conv)
  have dk: "distinct (map fst kws)" using d by simp
  show ?thesis
    unfolding bind_args_def bp using d dk f by (simp split: sum.splits)
qed

lemmas params_defs =
  PICMI_FieldDiagnostic_params_def PICMI_ElectrostaticFieldDiagnostic_params_def
  PICMI_ParticleDiagnostic_params_def PICMI_LabFrameFieldDiagnostic_params_def
  PICMI_LabFrameParticleDiagnostic_params_def

lemma params_distinct: "distinct (map fst (params_of cls))"
  by (cases cls) (simp_all add: params_defs)

lemma supplied_bound:
  assumes "bind_args (params_of cls) (PyObj [] # pos) kws = Inr (vals, kw)"
    and "(name, dflt) \<in> set (params_of cls)"
  shows "\<exists>v. map_of (zip (map fst (params_of cls)) vals) name = Some v \<and>
             (case supplied cls pos kws name of Some a \<Rightarrow> v = a | None \<Rightarrow> dflt = Some v)"
  unfolding supplied_def
  by (rule bind_params_value[OF bind_args_Inr(1)[OF assms(1)] params_distinct assms(2)])

subsection \<open>The initialisation helper\<close>

text \<open>
  The helper as the specification describes it: afterwards every leftover keyword is an
  attribute, and the attributes set before are kept unless a keyword has the same name.
\<close>

lemma handle_init_lookup:
  "handle_init self kw = Inr s \<Longrightarrow> distinct (map fst kw) \<Longrightarrow>
   map_of s k = (case map_of kw k of Some v \<Rightarrow> Some v | None \<Rightarrow> map_of self k)"
proof -
  have "distinct (map fst kw) \<Longrightarrow>
        map_of (fold (\<lambda>(k, v) s. setattr s k v) kw self) k =
          (case map_of kw k of Some v \<Rightarrow> Some v | None \<Rightarrow> map_of self k)" for self
  proof (induction kw arbitrary: self)
    case Nil
    then show ?case by simp
  next
    case (Cons x xs)
    obtain k0 v0 where x: "x = (k0, v0)" by (cases x)
    have none: "map_of xs k0 = None"
      using Cons.prems x by (simp add: map_of_eq_None_iff)
    show ?case
      using Cons.IH[of "setattr self k0 v0"] Cons.prems x none
      by (auto simp: map_of_setattr split: option.splits)
  qed
  then show "handle_init self kw = Inr s \<Longrightarrow> distinct (map fst kw) \<Longrightarrow>
   map_of s k = (case map_of kw k of Some v \<Rightarrow> Some v | None \<Rightarrow> map_of self k)"
    by (auto simp: handle_init_def)
qed

lemma fold_setattr_lookup:
  assumes "distinct (map fst extra)"
  shows "map_of (fold (\<lambda>(k, v) s. setattr s k v) extra s) k =
           (case map_of extra k of Some v \<Rightarrow> Some v | None \<Rightarrow> map_of s k)"
  using handle_init_lookup[of s extra _ k] assms by (simp add: handle_init_def)

lemma handle_init_append:
  "handle_init self (kw @ extra) =
     (case handle_init self kw of
        Inl e \<Rightarrow> Inl e
      | Inr s \<Rightarrow> Inr (fold (\<lambda>(k, v) s. setattr s k v) extra s))"
  by (simp add: handle_init_def)

subsection \<open>The bodies of the constructors\<close>

text \<open>
  What each \<open>__init__\<close> leaves in the instance dictionary when it returns, and when the
  field diagnostics raise.  The two field diagnostics have the same body.
\<close>

lemma electrostatic_init_eq:
  "PICMI_ElectrostaticFieldDiagnostic_init = PICMI_FieldDiagnostic_init"
  unfolding PICMI_ElectrostaticFieldDiagnostic_init_def PICMI_FieldDiagnostic_init_def
  by (rule refl)

lemma field_init_Inr:
  assumes "PICMI_FieldDiagnostic_init self grid period dl wd smin smax noc lb ub kw = Inr r"
    and "distinct (map fst kw)"
  shows "\<exists>n l u.
      (if noc = PyNone then getattr grid ''number_of_cells'' = Inr n else n = noc) \<and>
      (if lb = PyNone then getattr grid ''lower_bound'' = Inr l else l = lb) \<and>
      (if ub = PyNone then getattr grid ''upper_bound'' = Inr u else u = ub) \<and>
      grid_reads r =
        (if noc = PyNone then [''number_of_cells''] else []) @
        (if lb = PyNone then [''lower_bound''] else []) @
        (if ub = PyNone then [''upper_bound''] else []) \<and>
      (\<forall>k. map_of (attrs r) k =
         (case map_of kw k of
            Some v \<Rightarrow> Some v
          | None \<Rightarrow>
              ((map_of self)(''grid'' \<mapsto> grid, ''period'' \<mapsto> period, ''data_list'' \<mapsto> dl,
                 ''write_dir'' \<mapsto> wd, ''step_min'' \<mapsto> smin, ''step_max'' \<mapsto> smax,
                 ''number_of_cells'' \<mapsto> n, ''lower_bound'' \<mapsto> l, ''upper_bound'' \<mapsto> u)) k))"
proof -
  from assms(1) obtain n r1 l r2 u r3 s where
    n: "default_from_grid grid ''number_of_cells'' noc [] = Inr (n, r1)" and
    l: "default_from_grid grid ''lower_bound'' lb r1 = Inr (l, r2)" and
    u: "default_from_grid grid ''upper_bound'' ub r2 = Inr (u, r3)" and
    h: "handle_init
          (setattr (setattr (setattr (setattr (setattr (setattr (setattr (setattr (setattr self
             ''grid'' grid) ''period'' period) ''data_list'' dl) ''write_dir'' wd)
             ''step_min'' smin) ''step_max'' smax) ''number_of_cells'' n) ''lower_bound'' l)
             ''upper_bound'' u) kw = Inr s" and
    r: "r = \<lparr>attrs = s, grid_reads = r3\<rparr>"
    unfolding PICMI_FieldDiagnostic_init_def Let_def
    by (auto split: sum.splits prod.splits)
  have look: "\<And>k. map_of (attrs r) k =
         (case map_of kw k of
            Some v \<Rightarrow> Some v
          | None \<Rightarrow>
              ((map_of self)(''grid'' \<mapsto> grid, ''period'' \<mapsto> period, ''data_list'' \<mapsto> dl,
                 ''write_dir'' \<mapsto> wd, ''step_min'' \<mapsto> smin, ''step_max'' \<mapsto> smax,
                 ''number_of_cells'' \<mapsto> n, ''lower_bound'' \<mapsto> l, ''upper_bound'' \<mapsto> u)) k)"
    using handle_init_lookup[OF h assms(2)] r by (simp only: map_of_setattr diagnostic.simps)
  have n': "if noc = PyNone then getattr grid ''number_of_cells'' = Inr n else n = noc"
    and r1: "r1 = (if noc = PyNone then [''number_of_cells''] else [])"
    using n by (auto simp: default_from_grid_Inr split: if_splits)
  have l': "if lb = PyNone then getattr grid ''lower_bound'' = Inr l else l = lb"
    and r2: "r2 = r1 @ (if lb = PyNone then [''lower_bound''] else [])"
    using l by (auto simp: default_from_grid_Inr split: if_splits)
  have u': "if ub = PyNone then getattr grid ''upper_bound'' = Inr u else u = ub"
    and r3: "r3 = r2 @ (if ub = PyNone then [''upper_bound''] else [])"
    using u by (auto simp: default_from_grid_Inr split: if_splits)
  have rd: "grid_reads r =
        (if noc = PyNone then [''number_of_cells''] else []) @
        (if lb = PyNone then [''lower_bound''] else []) @
        (if ub = PyNone then [''upper_bound''] else [])"
    using r r1 r2 r3 by simp
  show ?thesis
    using n' l' u' rd look by blast
qed

text \<open>
  The body of a field diagnostic up to its last statement: a failing read of the grid ends
  it with the fault of that read; otherwise the nine attributes are set and the outcome is
  that of \<open>handle_init\<close>.  The first two facts do not depend on what \<open>handle_init\<close> does.
\<close>

lemma field_init_unfold:
  "PICMI_FieldDiagnostic_init self grid period dl wd smin smax noc lb ub kw =
     (case default_from_grid grid ''number_of_cells'' noc [] of
        Inl e \<Rightarrow> Inl e
      | Inr (n, r1) \<Rightarrow>
     (case default_from_grid grid ''lower_bound'' lb r1 of
        Inl e \<Rightarrow> Inl e
      | Inr (l, r2) \<Rightarrow>
     (case default_from_grid grid ''upper_bound'' ub r2 of
        Inl e \<Rightarrow> Inl e
      | Inr (u, r3) \<Rightarrow>
     (case handle_init
          (setattr (setattr (setattr (setattr (setattr (setattr (setattr (setattr (setattr self
             ''grid'' grid) ''period'' period) ''data_list'' dl) ''write_dir'' wd)
             ''step_min'' smin) ''step_max'' smax) ''number_of_cells'' n) ''lower_bound'' l)
             ''upper_bound'' u) kw of
        Inl e \<Rightarrow> Inl e
      | Inr s \<Rightarrow> Inr \<lparr>attrs = s, grid_reads = r3\<rparr>))))"
  unfolding PICMI_FieldDiagnostic_init_def Let_def by (rule refl)

lemma default_from_grid_ok:
  assumes "arg = PyNone \<longrightarrow> (\<exists>v. getattr grid name = Inr v)"
  obtains v reads' where "default_from_grid grid name arg reads = Inr (v, reads')"
proof (cases "arg = PyNone")
  case True
  then obtain v where "getattr grid name = Inr v" using assms by blast
  then have "default_from_grid grid name arg reads = Inr (v, reads @ [name])"
    using True by (simp add: default_from_grid_def)
  then show ?thesis by (rule that)
next
  case False
  then have "default_from_grid grid name arg reads = Inr (arg, reads)"
    by (simp add: default_from_grid_def)
  then show ?thesis by (rule that)
qed

lemma field_init_read_fails:
  assumes "(noc = PyNone \<and> getattr grid ''number_of_cells'' = Inl e) \<or>
    ((noc = PyNone \<longrightarrow> (\<exists>v. getattr grid ''number_of_cells'' = Inr v)) \<and>
     lb = PyNone \<and> getattr grid ''lower_bound'' = Inl e) \<or>
    ((noc = PyNone \<longrightarrow> (\<exists>v. getattr grid ''number_of_cells'' = Inr v)) \<and>
     (lb = PyNone \<longrightarrow> (\<exists>v. getattr grid ''lower_bound'' = Inr v)) \<and>
     ub = PyNone \<and> getattr grid ''upper_bound'' = Inl e)"
  shows "PICMI_FieldDiagnostic_init self grid period dl wd smin smax noc lb ub kw = Inl e"
proof -
  consider
    (n) "noc = PyNone" "getattr grid ''number_of_cells'' = Inl e"
  | (l) "noc = PyNone \<longrightarrow> (\<exists>v. getattr grid ''number_of_cells'' = Inr v)"
        "lb = PyNone" "getattr grid ''lower_bound'' = Inl e"
  | (u) "noc = PyNone \<longrightarrow> (\<exists>v. getattr grid ''number_of_cells'' = Inr v)"
        "lb = PyNone \<longrightarrow> (\<exists>v. getattr grid ''lower_bound'' = Inr v)"
        "ub = PyNone" "getattr grid ''upper_bound'' = Inl e"
    using assms by blast
  then show ?thesis
  proof cases
    case n
    then have "default_from_grid grid ''number_of_cells'' noc [] = Inl e"
      by (simp add: default_from_grid_Inl)
    then show ?thesis by (simp add: field_init_unfold)
  next
    case l
    from l(1) obtain n r1 where
      a: "default_from_grid grid ''number_of_cells'' noc [] = Inr (n, r1)"
      by (rule default_from_grid_ok)
    have b: "default_from_grid grid ''lower_bound'' lb r1 = Inl e"
      using l(2,3) by (simp add: default_from_grid_Inl)
    show ?thesis by (simp add: field_init_unfold a b)
  next
    case u
    from u(1) obtain n r1 where
      a: "default_from_grid grid ''number_of_cells'' noc [] = Inr (n, r1)"
      by (rule default_from_grid_ok)
    from u(2) obtain l r2 where
      b: "default_from_grid grid ''lower_bound'' lb r1 = Inr (l, r2)"
      by (rule default_from_grid_ok)
    have c: "default_from_grid grid ''upper_bound'' ub r2 = Inl e"
      using u(3,4) by (simp add: default_from_grid_Inl)
    show ?thesis by (simp add: field_init_unfold a b c)
  qed
qed

lemma field_init_reads_succeed:
  assumes "noc = PyNone \<longrightarrow> (\<exists>v. getattr grid ''number_of_cells'' = Inr v)"
    and "lb = PyNone \<longrightarrow> (\<exists>v. getattr grid ''lower_bound'' = Inr v)"
    and "ub = PyNone \<longrightarrow> (\<exists>v. getattr grid ''upper_bound'' = Inr v)"
  shows "\<exists>self' reads.
           PICMI_FieldDiagnostic_init self grid period dl wd smin smax noc lb ub kw =
             (case handle_init self' kw of
                Inl e \<Rightarrow> Inl e
              | Inr s \<Rightarrow> Inr \<lparr>attrs = s, grid_reads = reads\<rparr>)"
proof -
  from assms(1) obtain n r1 where
    a: "default_from_grid grid ''number_of_cells'' noc [] = Inr (n, r1)"
    by (rule default_from_grid_ok)
  from assms(2) obtain l r2 where
    b: "default_from_grid grid ''lower_bound'' lb r1 = Inr (l, r2)"
    by (rule default_from_grid_ok)
  from assms(3) obtain u r3 where
    c: "default_from_grid grid ''upper_bound'' ub r2 = Inr (u, r3)"
    by (rule default_from_grid_ok)
  have "PICMI_FieldDiagnostic_init self grid period dl wd smin smax noc lb ub kw =
     (case handle_init
          (setattr (setattr (setattr (setattr (setattr (setattr (setattr (setattr (setattr self
             ''grid'' grid) ''period'' period) ''data_list'' dl) ''write_dir'' wd)
             ''step_min'' smin) ''step_max'' smax) ''number_of_cells'' n) ''lower_bound'' l)
             ''upper_bound'' u) kw of
        Inl e \<Rightarrow> Inl e
      | Inr s \<Rightarrow> Inr \<lparr>attrs = s, grid_reads = r3\<rparr>)"
    by (simp add: field_init_unfold a b c)
  then show ?thesis by blast
qed

lemma field_init_succeeds:
  assumes "noc = PyNone \<longrightarrow> (\<exists>v. getattr grid ''number_of_cells'' = Inr v)"
    and "lb = PyNone \<longrightarrow> (\<exists>v. getattr grid ''lower_bound'' = Inr v)"
    and "ub = PyNone \<longrightarrow> (\<exists>v. getattr grid ''upper_bound'' = Inr v)"
  shows "\<exists>r. PICMI_FieldDiagnostic_init self grid period dl wd smin smax noc lb ub kw = Inr r"
  using field_init_reads_succeed[OF assms, of self period dl wd smin smax kw]
  by (auto simp: handle_init_def)

lemma particle_init_Inr:
  assumes "PICMI_ParticleDiagnostic_init self period species dl wd smin smax kw = Inr r"
    and "distinct (map fst kw)"
  shows "grid_reads r = []"
    and "map_of (attrs r) k =
         (case map_of kw k of
            Some v \<Rightarrow> Some v
          | None \<Rightarrow>
              ((map_of self)(''period'' \<mapsto> period, ''species'' \<mapsto> species, ''data_list'' \<mapsto> dl,
                 ''write_dir'' \<mapsto> wd, ''step_min'' \<mapsto> smin, ''step_max'' \<mapsto> smax)) k)"
proof -
  from assms(1) obtain s where
    h: "handle_init
          (setattr (setattr (setattr (setattr (setattr (setattr self
             ''period'' period) ''species'' species) ''data_list'' dl) ''write_dir'' wd)
             ''step_min'' smin) ''step_max'' smax) kw = Inr s" and
    r: "r = \<lparr>attrs = s, grid_reads = []\<rparr>"
    unfolding PICMI_ParticleDiagnostic_init_def Let_def
    by (auto split: sum.splits)
  show "grid_reads r = []" using r by simp
  show "map_of (attrs r) k =
         (case map_of kw k of
            Some v \<Rightarrow> Some v
          | None \<Rightarrow>
              ((map_of self)(''period'' \<mapsto> period, ''species'' \<mapsto> species, ''data_list'' \<mapsto> dl,
                 ''write_dir'' \<mapsto> wd, ''step_min'' \<mapsto> smin, ''step_max'' \<mapsto> smax)) k)"
    using handle_init_lookup[OF h assms(2)] r by (simp only: map_of_setattr diagnostic.simps)
qed

lemma labframe_field_init_Inr:
  assumes "PICMI_LabFrameFieldDiagnostic_init self num dt dl wd kw = Inr r"
    and "distinct (map fst kw)"
  shows "grid_reads r = []"
    and "map_of (attrs r) k =
         (case map_of kw k of
            Some v \<Rightarrow> Some v
          | None \<Rightarrow>
              ((map_of self)(''num_snapshots'' \<mapsto> num, ''dt_snapshots'' \<mapsto> dt,
                 ''data_list'' \<mapsto> dl, ''write_dir'' \<mapsto> wd)) k)"
proof -
  from assms(1) obtain s where
    h: "handle_init
          (setattr (setattr (setattr (setattr self
             ''num_snapshots'' num) ''dt_snapshots'' dt) ''data_list'' dl) ''write_dir'' wd)
           kw = Inr s" and
    r: "r = \<lparr>attrs = s, grid_reads = []\<rparr>"
    unfolding PICMI_LabFrameFieldDiagnostic_init_def Let_def
    by (auto split: sum.splits)
  show "grid_reads r = []" using r by simp
  show "map_of (attrs r) k =
         (case map_of kw k of
            Some v \<Rightarrow> Some v
          | None \<Rightarrow>
              ((map_of self)(''num_snapshots'' \<mapsto> num, ''dt_snapshots'' \<mapsto> dt,
                 ''data_list'' \<mapsto> dl, ''write_dir'' \<mapsto> wd)) k)"
    using handle_init_lookup[OF h assms(2)] r by (simp only: map_of_setattr diagnostic.simps)
qed

lemma labframe_particle_init_Inr:
  assumes "PICMI_LabFrameParticleDiagnostic_init self num dt species dl wd kw = Inr r"
    and "distinct (map fst kw)"
  shows "grid_reads r = []"
    and "map_of (attrs r) k =
         (case map_of kw k of
            Some v \<Rightarrow> Some v
          | None \<Rightarrow>
              ((map_of self)(''num_snapshots'' \<mapsto> num, ''dt_snapshots'' \<mapsto> dt,
                 ''species'' \<mapsto> species, ''data_list'' \<mapsto> dl, ''write_dir'' \<mapsto> wd)) k)"
proof -
  from assms(1) obtain s where
    h: "handle_init
          (setattr (setattr (setattr (setattr (setattr self
             ''num_snapshots'' num) ''dt_snapshots'' dt) ''species'' species) ''data_list'' dl)
             ''write_dir'' wd) kw = Inr s" and
    r: "r = \<lparr>attrs = s, grid_reads = []\<rparr>"
    unfolding PICMI_LabFrameParticleDiagnostic_init_def Let_def
    by (auto split: sum.splits)
  show "grid_reads r = []" using r by simp
  show "map_of (attrs r) k =
         (case map_of kw k of
            Some v \<Rightarrow> Some v
          | None \<Rightarrow>
              ((map_of self)(''num_snapshots'' \<mapsto> num, ''dt_snapshots'' \<mapsto> dt,
                 ''species'' \<mapsto> species, ''data_list'' \<mapsto> dl, ''write_dir'' \<mapsto> wd)) k)"
    using handle_init_lookup[OF h assms(2)] r by (simp only: map_of_setattr diagnostic.simps)
qed

subsection \<open>Calls\<close>

text \<open>
  A successful call is a successful binding followed by a successful body; the stored
  attribute of every parameter other than the geometry is the value bound to it.
\<close>

lemmas run_defs =
  construct_def bind_args_def init_of_def supplied_def params_defs
  PICMI_FieldDiagnostic_init_def PICMI_ElectrostaticFieldDiagnostic_init_def
  PICMI_ParticleDiagnostic_init_def PICMI_LabFrameFieldDiagnostic_init_def
  PICMI_LabFrameParticleDiagnostic_init_def
  default_from_grid_def handle_init_def setattr_def

lemma init_of_field_Inr:
  assumes "init_of PICMI_FieldDiagnostic vals kw = Inr r"
  obtains self grid period dl wd smin smax noc lb ub where
    "vals = [PyObj self, grid, period, dl, wd, smin, smax, noc, lb, ub]"
    and "PICMI_FieldDiagnostic_init self grid period dl wd smin smax noc lb ub kw = Inr r"
  using assms by (auto simp: init_of_def split: list.splits pyval.splits)

lemma init_of_electrostatic_Inr:
  assumes "init_of PICMI_ElectrostaticFieldDiagnostic vals kw = Inr r"
  obtains self grid period dl wd smin smax noc lb ub where
    "vals = [PyObj self, grid, period, dl, wd, smin, smax, noc, lb, ub]"
    and "PICMI_FieldDiagnostic_init self grid period dl wd smin smax noc lb ub kw = Inr r"
  using assms by (auto simp: init_of_def electrostatic_init_eq split: list.splits pyval.splits)

lemma init_of_particle_Inr:
  assumes "init_of PICMI_ParticleDiagnostic vals kw = Inr r"
  obtains self period species dl wd smin smax where
    "vals = [PyObj self, period, species, dl, wd, smin, smax]"
    and "PICMI_ParticleDiagnostic_init self period species dl wd smin smax kw = Inr r"
  using assms by (auto simp: init_of_def split: list.splits pyval.splits)

lemma init_of_labframe_field_Inr:
  assumes "init_of PICMI_LabFrameFieldDiagnostic vals kw = Inr r"
  obtains self num dt dl wd where
    "vals = [PyObj self, num, dt, dl, wd]"
    and "PICMI_LabFrameFieldDiagnostic_init self num dt dl wd kw = Inr r"
  using assms by (auto simp: init_of_def split: list.splits pyval.splits)

lemma init_of_labframe_particle_Inr:
  assumes "init_of PICMI_LabFrameParticleDiagnostic vals kw = Inr r"
  obtains self num dt species dl wd where
    "vals = [PyObj self, num, dt, species, dl, wd]"
    and "PICMI_LabFrameParticleDiagnostic_init self num dt species dl wd kw = Inr r"
  using assms by (auto simp: init_of_def split: list.splits pyval.splits)

lemma init_of_append:
  "init_of cls vals (kw @ extra) =
     (case init_of cls vals kw of
        Inl e \<Rightarrow> Inl e
      | Inr r \<Rightarrow> Inr (r\<lparr>attrs := fold (\<lambda>(k, v) s. setattr s k v) extra (attrs r)\<rparr>))"
proof (cases cls)
  case PICMI_FieldDiagnostic
  then show ?thesis
    unfolding init_of_def PICMI_FieldDiagnostic_init_def Let_def handle_init_append
    by (simp add: handle_init_def split: list.splits pyval.splits sum.splits prod.splits)
next
  case PICMI_ElectrostaticFieldDiagnostic
  then show ?thesis
    unfolding init_of_def PICMI_ElectrostaticFieldDiagnostic_init_def Let_def handle_init_append
    by (simp add: handle_init_def split: list.splits pyval.splits sum.splits prod.splits)
next
  case PICMI_ParticleDiagnostic
  then show ?thesis
    unfolding init_of_def PICMI_ParticleDiagnostic_init_def Let_def handle_init_append
    by (simp add: handle_init_def split: list.splits pyval.splits sum.splits prod.splits)
next
  case PICMI_LabFrameFieldDiagnostic
  then show ?thesis
    unfolding init_of_def PICMI_LabFrameFieldDiagnostic_init_def Let_def handle_init_append
    by (simp add: handle_init_def split: list.splits pyval.splits sum.splits prod.splits)
next
  case PICMI_LabFrameParticleDiagnostic
  then show ?thesis
    unfolding init_of_def PICMI_LabFrameParticleDiagnostic_init_def Let_def handle_init_append
    by (simp add: handle_init_def split: list.splits pyval.splits sum.splits prod.splits)
qed

lemma construct_Inr:
  assumes "construct cls pos kws = Inr r"
  obtains vals kw where
    "bind_args (params_of cls) (PyObj [] # pos) kws = Inr (PyObj [] # vals, kw)"
    and "init_of cls (PyObj [] # vals) kw = Inr r"
    and "length vals = length (params_of cls) - 1"
proof -
  from assms obtain vals0 kw where
    b: "bind_args (params_of cls) (PyObj [] # pos) kws = Inr (vals0, kw)"
    and i: "init_of cls vals0 kw = Inr r"
    by (auto simp: construct_def split: sum.splits)
  have bp: "bind_params (params_of cls) (PyObj [] # pos) kws = Inr vals0"
    by (rule bind_args_Inr(1)[OF b])
  obtain n d sig where sig: "params_of cls = (n, d) # sig"
    by (cases cls) (simp_all add: params_defs)
  from bp sig obtain vs where vs: "vals0 = PyObj [] # vs"
    using bind_params_self[of n d sig "PyObj []" pos kws vals0] by auto
  have "length vals0 = length (params_of cls)"
    by (rule bind_params_length[OF bp])
  then have "length vs = length (params_of cls) - 1" using vs by simp
  then show ?thesis using that b i vs by simp
qed

lemma stored_is_bound:
  assumes b: "bind_args (params_of cls) (PyObj [] # pos) kws = Inr (vals, kw)"
    and i: "init_of cls vals kw = Inr r"
    and n: "name \<in> set (map fst (params_of cls))"
    and g: "name \<notin> {''self'', ''number_of_cells'', ''lower_bound'', ''upper_bound''}"
  shows "map_of (attrs r) name = map_of (zip (map fst (params_of cls)) vals) name"
proof -
  have d: "distinct (map fst kw)" by (rule bind_args_Inr(3)[OF b])
  have k: "map_of kw name = None" using bind_args_Inr(4)[OF b, of name] n by simp
  show ?thesis
  proof (cases cls)
    case PICMI_FieldDiagnostic
    from i obtain self grid period dl wd smin smax noc lb ub where
      v: "vals = [PyObj self, grid, period, dl, wd, smin, smax, noc, lb, ub]" and
      r: "PICMI_FieldDiagnostic_init self grid period dl wd smin smax noc lb ub kw = Inr r"
      unfolding PICMI_FieldDiagnostic by (rule init_of_field_Inr)
    from field_init_Inr[OF r d] obtain n' l' u' where
      "\<forall>k. map_of (attrs r) k =
         (case map_of kw k of
            Some v \<Rightarrow> Some v
          | None \<Rightarrow>
              ((map_of self)(''grid'' \<mapsto> grid, ''period'' \<mapsto> period, ''data_list'' \<mapsto> dl,
                 ''write_dir'' \<mapsto> wd, ''step_min'' \<mapsto> smin, ''step_max'' \<mapsto> smax,
                 ''number_of_cells'' \<mapsto> n', ''lower_bound'' \<mapsto> l', ''upper_bound'' \<mapsto> u')) k)"
      by blast
    then show ?thesis
      using k n g v PICMI_FieldDiagnostic by (auto simp: params_defs)
  next
    case PICMI_ElectrostaticFieldDiagnostic
    from i obtain self grid period dl wd smin smax noc lb ub where
      v: "vals = [PyObj self, grid, period, dl, wd, smin, smax, noc, lb, ub]" and
      r: "PICMI_FieldDiagnostic_init self grid period dl wd smin smax noc lb ub kw = Inr r"
      unfolding PICMI_ElectrostaticFieldDiagnostic by (rule init_of_electrostatic_Inr)
    from field_init_Inr[OF r d] obtain n' l' u' where
      "\<forall>k. map_of (attrs r) k =
         (case map_of kw k of
            Some v \<Rightarrow> Some v
          | None \<Rightarrow>
              ((map_of self)(''grid'' \<mapsto> grid, ''period'' \<mapsto> period, ''data_list'' \<mapsto> dl,
                 ''write_dir'' \<mapsto> wd, ''step_min'' \<mapsto> smin, ''step_max'' \<mapsto> smax,
                 ''number_of_cells'' \<mapsto> n', ''lower_bound'' \<mapsto> l', ''upper_bound'' \<mapsto> u')) k)"
      by blast
    then show ?thesis
      using k n g v PICMI_ElectrostaticFieldDiagnostic by (auto simp: params_defs)
  next
    case PICMI_ParticleDiagnostic
    from i obtain self period species dl wd smin smax where
      v: "vals = [PyObj self, period, species, dl, wd, smin, smax]" and
      r: "PICMI_ParticleDiagnostic_init self period species dl wd smin smax kw = Inr r"
      unfolding PICMI_ParticleDiagnostic by (rule init_of_particle_Inr)
    show ?thesis
      using particle_init_Inr(2)[OF r d, of name] k n g v PICMI_ParticleDiagnostic
      by (auto simp: params_defs)
  next
    case PICMI_LabFrameFieldDiagnostic
    from i obtain self num dt dl wd where
      v: "vals = [PyObj self, num, dt, dl, wd]" and
      r: "PICMI_LabFrameFieldDiagnostic_init self num dt dl wd kw = Inr r"
      unfolding PICMI_LabFrameFieldDiagnostic by (rule init_of_labframe_field_Inr)
    show ?thesis
      using labframe_field_init_Inr(2)[OF r d, of name] k n g v PICMI_LabFrameFieldDiagnostic
      by (auto simp: params_defs)
  next
    case PICMI_LabFrameParticleDiagnostic
    from i obtain self num dt species dl wd where
      v: "vals = [PyObj self, num, dt, species, dl, wd]" and
      r: "PICMI_LabFrameParticleDiagnostic_init self num dt species dl wd kw = Inr r"
      unfolding PICMI_LabFrameParticleDiagnostic by (rule init_of_labframe_particle_Inr)
    show ?thesis
      using labframe_particle_init_Inr(2)[OF r d, of name] k n g v PICMI_LabFrameParticleDiagnostic
      by (auto simp: params_defs)
  qed
qed

lemma construct_stored:
  assumes c: "construct cls pos kws = Inr r"
    and p: "(name, dflt) \<in> set (params_of cls)"
    and g: "name \<notin> {''self'', ''number_of_cells'', ''lower_bound'', ''upper_bound''}"
  shows "\<exists>v. map_of (attrs r) name = Some v \<and>
             (case supplied cls pos kws name of Some a \<Rightarrow> v = a | None \<Rightarrow> dflt = Some v)"
proof -
  from c obtain vals kw where
    b: "bind_args (params_of cls) (PyObj [] # pos) kws = Inr (vals, kw)"
    and i: "init_of cls vals kw = Inr r"
    by (auto simp: construct_def split: sum.splits)
  have n: "name \<in> set (map fst (params_of cls))" using p by (auto simp: rev_image_eqI)
  show ?thesis
    using supplied_bound[OF b p] stored_is_bound[OF b i n g] by simp
qed

lemma construct_field_Inr:
  assumes cls: "cls = PICMI_FieldDiagnostic \<or> cls = PICMI_ElectrostaticFieldDiagnostic"
    and c: "construct cls pos kws = Inr r"
  obtains grid period dl wd smin smax noc lb ub kw where
    "bind_args (params_of cls) (PyObj [] # pos) kws =
       Inr ([PyObj [], grid, period, dl, wd, smin, smax, noc, lb, ub], kw)"
    and "PICMI_FieldDiagnostic_init [] grid period dl wd smin smax noc lb ub kw = Inr r"
proof -
  from c obtain vals kw where
    b: "bind_args (params_of cls) (PyObj [] # pos) kws = Inr (PyObj [] # vals, kw)"
    and i: "init_of cls (PyObj [] # vals) kw = Inr r"
    by (rule construct_Inr)
  from cls i obtain self grid period dl wd smin smax noc lb ub where
    v: "PyObj [] # vals = [PyObj self, grid, period, dl, wd, smin, smax, noc, lb, ub]"
    and r: "PICMI_FieldDiagnostic_init self grid period dl wd smin smax noc lb ub kw = Inr r"
    by (auto elim: init_of_field_Inr init_of_electrostatic_Inr)
  from v have "self = []" and "vals = [grid, period, dl, wd, smin, smax, noc, lb, ub]" by simp_all
  then show ?thesis using that b r by simp
qed

lemma field_bind_shape:
  assumes cls: "cls = PICMI_FieldDiagnostic \<or> cls = PICMI_ElectrostaticFieldDiagnostic"
    and b: "bind_args (params_of cls) (PyObj [] # pos) kws = Inr (vals, kw)"
  obtains grid period dl wd smin smax noc lb ub where
    "vals = [PyObj [], grid, period, dl, wd, smin, smax, noc, lb, ub]"
    and "construct cls pos kws =
           PICMI_FieldDiagnostic_init [] grid period dl wd smin smax noc lb ub kw"
proof -
  have bp: "bind_params (params_of cls) (PyObj [] # pos) kws = Inr vals"
    by (rule bind_args_Inr(1)[OF b])
  have "length vals = 10"
    using bind_params_length[OF bp] cls by (auto simp: params_defs)
  then obtain s grid period dl wd smin smax noc lb ub where
    v: "vals = [s, grid, period, dl, wd, smin, smax, noc, lb, ub]"
    by (auto simp: eval_nat_numeral length_Suc_conv)
  obtain n d sig where sig: "params_of cls = (n, d) # sig"
    by (cases cls) (simp_all add: params_defs)
  have s: "s = PyObj []"
    using bind_params_self[of n d sig "PyObj []" pos kws vals] bp sig v by auto
  have "construct cls pos kws =
           PICMI_FieldDiagnostic_init [] grid period dl wd smin smax noc lb ub kw"
    using cls b v s by (auto simp: construct_def init_of_def electrostatic_init_eq)
  then show ?thesis using that v s by simp
qed

lemma field_bound:
  assumes cls: "cls = PICMI_FieldDiagnostic \<or> cls = PICMI_ElectrostaticFieldDiagnostic"
    and b: "bind_args (params_of cls) (PyObj [] # pos) kws =
       Inr ([s, grid, period, dl, wd, smin, smax, noc, lb, ub], kw)"
  shows "supplied cls pos kws ''grid'' = Some grid"
    and "noc = (case supplied cls pos kws ''number_of_cells'' of Some a \<Rightarrow> a | None \<Rightarrow> PyNone)"
    and "lb = (case supplied cls pos kws ''lower_bound'' of Some a \<Rightarrow> a | None \<Rightarrow> PyNone)"
    and "ub = (case supplied cls pos kws ''upper_bound'' of Some a \<Rightarrow> a | None \<Rightarrow> PyNone)"
    and "map_of kw ''grid'' = None" and "map_of kw ''number_of_cells'' = None"
    and "map_of kw ''lower_bound'' = None" and "map_of kw ''upper_bound'' = None"
proof -
  have g: "(''grid'', None) \<in> set (params_of cls)"
    and n: "(''number_of_cells'', Some PyNone) \<in> set (params_of cls)"
    and l: "(''lower_bound'', Some PyNone) \<in> set (params_of cls)"
    and u: "(''upper_bound'', Some PyNone) \<in> set (params_of cls)"
    using cls by (auto simp: params_defs)
  show "supplied cls pos kws ''grid'' = Some grid"
    using supplied_bound[OF b g] cls by (auto simp: params_defs split: option.splits)
  show "noc = (case supplied cls pos kws ''number_of_cells'' of Some a \<Rightarrow> a | None \<Rightarrow> PyNone)"
    using supplied_bound[OF b n] cls by (auto simp: params_defs split: option.splits)
  show "lb = (case supplied cls pos kws ''lower_bound'' of Some a \<Rightarrow> a | None \<Rightarrow> PyNone)"
    using supplied_bound[OF b l] cls by (auto simp: params_defs split: option.splits)
  show "ub = (case supplied cls pos kws ''upper_bound'' of Some a \<Rightarrow> a | None \<Rightarrow> PyNone)"
    using supplied_bound[OF b u] cls by (auto simp: params_defs split: option.splits)
  show "map_of kw ''grid'' = None" and "map_of kw ''number_of_cells'' = None"
    and "map_of kw ''lower_bound'' = None" and "map_of kw ''upper_bound'' = None"
    using bind_args_Inr(4)[OF b] cls by (auto simp: params_defs)
qed

lemma field_geometry:
  assumes cls: "cls = PICMI_FieldDiagnostic \<or> cls = PICMI_ElectrostaticFieldDiagnostic"
    and c: "construct cls pos kws = Inr r"
  obtains grid n l u where
    "supplied cls pos kws ''grid'' = Some grid"
    and "map_of (attrs r) ''grid'' = Some grid"
    and "map_of (attrs r) ''number_of_cells'' = Some n"
    and "map_of (attrs r) ''lower_bound'' = Some l"
    and "map_of (attrs r) ''upper_bound'' = Some u"
    and "case supplied cls pos kws ''number_of_cells'' of
           None \<Rightarrow> getattr grid ''number_of_cells'' = Inr n
         | Some a \<Rightarrow> if a = PyNone then getattr grid ''number_of_cells'' = Inr n else n = a"
    and "case supplied cls pos kws ''lower_bound'' of
           None \<Rightarrow> getattr grid ''lower_bound'' = Inr l
         | Some a \<Rightarrow> if a = PyNone then getattr grid ''lower_bound'' = Inr l else l = a"
    and "case supplied cls pos kws ''upper_bound'' of
           None \<Rightarrow> getattr grid ''upper_bound'' = Inr u
         | Some a \<Rightarrow> if a = PyNone then getattr grid ''upper_bound'' = Inr u else u = a"
    and "grid_reads r =
        (case supplied cls pos kws ''number_of_cells'' of
           None \<Rightarrow> [''number_of_cells'']
         | Some a \<Rightarrow> if a = PyNone then [''number_of_cells''] else []) @
        (case supplied cls pos kws ''lower_bound'' of
           None \<Rightarrow> [''lower_bound'']
         | Some a \<Rightarrow> if a = PyNone then [''lower_bound''] else []) @
        (case supplied cls pos kws ''upper_bound'' of
           None \<Rightarrow> [''upper_bound'']
         | Some a \<Rightarrow> if a = PyNone then [''upper_bound''] else [])"
proof -
  from cls c obtain grid period dl wd smin smax noc lb ub kw where
    b: "bind_args (params_of cls) (PyObj [] # pos) kws =
       Inr ([PyObj [], grid, period, dl, wd, smin, smax, noc, lb, ub], kw)"
    and i: "PICMI_FieldDiagnostic_init [] grid period dl wd smin smax noc lb ub kw = Inr r"
    by (rule construct_field_Inr)
  note fb = field_bound[OF cls b]
  have d: "distinct (map fst kw)" by (rule bind_args_Inr(3)[OF b])
  from field_init_Inr[OF i d] obtain n l u where
    n: "if noc = PyNone then getattr grid ''number_of_cells'' = Inr n else n = noc" and
    l: "if lb = PyNone then getattr grid ''lower_bound'' = Inr l else l = lb" and
    u: "if ub = PyNone then getattr grid ''upper_bound'' = Inr u else u = ub" and
    rd: "grid_reads r =
        (if noc = PyNone then [''number_of_cells''] else []) @
        (if lb = PyNone then [''lower_bound''] else []) @
        (if ub = PyNone then [''upper_bound''] else [])" and
    look: "\<And>k. map_of (attrs r) k =
         (case map_of kw k of
            Some v \<Rightarrow> Some v
          | None \<Rightarrow>
              ((map_of [])(''grid'' \<mapsto> grid, ''period'' \<mapsto> period, ''data_list'' \<mapsto> dl,
                 ''write_dir'' \<mapsto> wd, ''step_min'' \<mapsto> smin, ''step_max'' \<mapsto> smax,
                 ''number_of_cells'' \<mapsto> n, ''lower_bound'' \<mapsto> l, ''upper_bound'' \<mapsto> u)) k)"
    by blast
  show ?thesis
  proof (rule that[of grid n l u])
    show "supplied cls pos kws ''grid'' = Some grid" by (rule fb(1))
    show "map_of (attrs r) ''grid'' = Some grid" using look[of "''grid''"] fb(5) by simp
    show "map_of (attrs r) ''number_of_cells'' = Some n"
      using look[of "''number_of_cells''"] fb(6) by simp
    show "map_of (attrs r) ''lower_bound'' = Some l"
      using look[of "''lower_bound''"] fb(7) by simp
    show "map_of (attrs r) ''upper_bound'' = Some u"
      using look[of "''upper_bound''"] fb(8) by simp
    show "case supplied cls pos kws ''number_of_cells'' of
           None \<Rightarrow> getattr grid ''number_of_cells'' = Inr n
         | Some a \<Rightarrow> if a = PyNone then getattr grid ''number_of_cells'' = Inr n else n = a"
      using n fb(2) by (simp split: option.splits if_splits)
    show "case supplied cls pos kws ''lower_bound'' of
           None \<Rightarrow> getattr grid ''lower_bound'' = Inr l
         | Some a \<Rightarrow> if a = PyNone then getattr grid ''lower_bound'' = Inr l else l = a"
      using l fb(3) by (simp split: option.splits if_splits)
    show "case supplied cls pos kws ''upper_bound'' of
           None \<Rightarrow> getattr grid ''upper_bound'' = Inr u
         | Some a \<Rightarrow> if a = PyNone then getattr grid ''upper_bound'' = Inr u else u = a"
      using u fb(4) by (simp split: option.splits if_splits)
    show "grid_reads r =
        (case supplied cls pos kws ''number_of_cells'' of
           None \<Rightarrow> [''number_of_cells'']
         | Some a \<Rightarrow> if a = PyNone then [''number_of_cells''] else []) @
        (case supplied cls pos kws ''lower_bound'' of
           None \<Rightarrow> [''lower_bound'']
         | Some a \<Rightarrow> if a = PyNone then [''lower_bound''] else []) @
        (case supplied cls pos kws ''upper_bound'' of
           None \<Rightarrow> [''upper_bound'']
         | Some a \<Rightarrow> if a = PyNone then [''upper_bound''] else [])"
      unfolding rd fb(2) fb(3) fb(4) by (simp split: option.splits)
  qed
qed

text \<open>
  The other three classes: a call that binds runs the body on the bound values.  Every
  constructor returns an object once its arguments are bound, provided, for the two field
  diagnostics, that the grid has each geometry attribute the call leaves to it.
\<close>

lemma particle_bind_shape:
  assumes b: "bind_args (params_of PICMI_ParticleDiagnostic) (PyObj [] # pos) kws = Inr (vals, kw)"
  obtains period species dl wd smin smax where
    "vals = [PyObj [], period, species, dl, wd, smin, smax]"
    and "construct PICMI_ParticleDiagnostic pos kws =
           PICMI_ParticleDiagnostic_init [] period species dl wd smin smax kw"
proof -
  have bp: "bind_params (params_of PICMI_ParticleDiagnostic) (PyObj [] # pos) kws = Inr vals"
    by (rule bind_args_Inr(1)[OF b])
  have "length vals = 7"
    using bind_params_length[OF bp] by (simp add: params_defs)
  then obtain s period species dl wd smin smax where
    v: "vals = [s, period, species, dl, wd, smin, smax]"
    by (auto simp: eval_nat_numeral length_Suc_conv)
  have s: "s = PyObj []"
    using bind_params_self[of "''self''" None _ "PyObj []" pos kws vals] bp v
    by (auto simp: params_defs)
  have "construct PICMI_ParticleDiagnostic pos kws =
           PICMI_ParticleDiagnostic_init [] period species dl wd smin smax kw"
    using b v s by (simp add: construct_def init_of_def)
  then show ?thesis using that v s by simp
qed

lemma labframe_field_bind_shape:
  assumes b: "bind_args (params_of PICMI_LabFrameFieldDiagnostic) (PyObj [] # pos) kws =
                Inr (vals, kw)"
  obtains num dt dl wd where
    "vals = [PyObj [], num, dt, dl, wd]"
    and "construct PICMI_LabFrameFieldDiagnostic pos kws =
           PICMI_LabFrameFieldDiagnostic_init [] num dt dl wd kw"
proof -
  have bp: "bind_params (params_of PICMI_LabFrameFieldDiagnostic) (PyObj [] # pos) kws = Inr vals"
    by (rule bind_args_Inr(1)[OF b])
  have "length vals = 5"
    using bind_params_length[OF bp] by (simp add: params_defs)
  then obtain s num dt dl wd where
    v: "vals = [s, num, dt, dl, wd]"
    by (auto simp: eval_nat_numeral length_Suc_conv)
  have s: "s = PyObj []"
    using bind_params_self[of "''self''" None _ "PyObj []" pos kws vals] bp v
    by (auto simp: params_defs)
  have "construct PICMI_LabFrameFieldDiagnostic pos kws =
           PICMI_LabFrameFieldDiagnostic_init [] num dt dl wd kw"
    using b v s by (simp add: construct_def init_of_def)
  then show ?thesis using that v s by simp
qed

lemma labframe_particle_bind_shape:
  assumes b: "bind_args (params_of PICMI_LabFrameParticleDiagnostic) (PyObj [] # pos) kws =
                Inr (vals, kw)"
  obtains num dt species dl wd where
    "vals = [PyObj [], num, dt, species, dl, wd]"
    and "construct PICMI_LabFrameParticleDiagnostic pos kws =
           PICMI_LabFrameParticleDiagnostic_init [] num dt species dl wd kw"
proof -
  have bp: "bind_params (params_of PICMI_LabFrameParticleDiagnostic) (PyObj [] # pos) kws =
              Inr vals"
    by (rule bind_args_Inr(1)[OF b])
  have "length vals = 6"
    using bind_params_length[OF bp] by (simp add: params_defs)
  then obtain s num dt species dl wd where
    v: "vals = [s, num, dt, species, dl, wd]"
    by (auto simp: eval_nat_numeral length_Suc_conv)
  have s: "s = PyObj []"
    using bind_params_self[of "''self''" None _ "PyObj []" pos kws vals] bp v
    by (auto simp: params_defs)
  have "construct PICMI_LabFrameParticleDiagnostic pos kws =
           PICMI_LabFrameParticleDiagnostic_init [] num dt species dl wd kw"
    using b v s by (simp add: construct_def init_of_def)
  then show ?thesis using that v s by simp
qed

lemma construct_succeeds:
  assumes b: "bind_args (params_of cls) (PyObj [] # pos) kws = Inr b"
    and g: "cls = PICMI_FieldDiagnostic \<or> cls = PICMI_ElectrostaticFieldDiagnostic \<Longrightarrow>
         \<exists>grid. supplied cls pos kws ''grid'' = Some grid \<and>
           (\<forall>name \<in> {''number_of_cells'', ''lower_bound'', ''upper_bound''}.
              supplied cls pos kws name = None \<or> supplied cls pos kws name = Some PyNone \<longrightarrow>
              (\<exists>v. getattr grid name = Inr v))"
  shows "\<exists>r. construct cls pos kws = Inr r"
proof -
  obtain vals kw where b': "bind_args (params_of cls) (PyObj [] # pos) kws = Inr (vals, kw)"
    using b by (cases b) simp
  have field: ?thesis if cls: "cls = PICMI_FieldDiagnostic \<or> cls = PICMI_ElectrostaticFieldDiagnostic"
  proof -
    from cls b' obtain grid period dl wd smin smax noc lb ub where
      v: "vals = [PyObj [], grid, period, dl, wd, smin, smax, noc, lb, ub]"
      and c: "construct cls pos kws =
             PICMI_FieldDiagnostic_init [] grid period dl wd smin smax noc lb ub kw"
      by (rule field_bind_shape)
    note fb = field_bound[OF cls b'[unfolded v]]
    from g[OF cls] fb(1) have av:
      "\<forall>name \<in> {''number_of_cells'', ''lower_bound'', ''upper_bound''}.
              supplied cls pos kws name = None \<or> supplied cls pos kws name = Some PyNone \<longrightarrow>
              (\<exists>v. getattr grid name = Inr v)"
      by auto
    have n: "noc = PyNone \<longrightarrow> (\<exists>v. getattr grid ''number_of_cells'' = Inr v)"
      using av fb(2) by (auto split: option.splits)
    have l: "lb = PyNone \<longrightarrow> (\<exists>v. getattr grid ''lower_bound'' = Inr v)"
      using av fb(3) by (auto split: option.splits)
    have u: "ub = PyNone \<longrightarrow> (\<exists>v. getattr grid ''upper_bound'' = Inr v)"
      using av fb(4) by (auto split: option.splits)
    show ?thesis unfolding c by (rule field_init_succeeds[OF n l u])
  qed
  show ?thesis
  proof (cases cls)
    case PICMI_FieldDiagnostic
    then show ?thesis using field by simp
  next
    case PICMI_ElectrostaticFieldDiagnostic
    then show ?thesis using field by simp
  next
    case PICMI_ParticleDiagnostic
    from b'[unfolded PICMI_ParticleDiagnostic] obtain period species dl wd smin smax where
      "construct PICMI_ParticleDiagnostic pos kws =
           PICMI_ParticleDiagnostic_init [] period species dl wd smin smax kw"
      by (rule particle_bind_shape)
    then show ?thesis
      unfolding PICMI_ParticleDiagnostic
      by (simp add: PICMI_ParticleDiagnostic_init_def handle_init_def Let_def)
  next
    case PICMI_LabFrameFieldDiagnostic
    from b'[unfolded PICMI_LabFrameFieldDiagnostic] obtain num dt dl wd where
      "construct PICMI_LabFrameFieldDiagnostic pos kws =
           PICMI_LabFrameFieldDiagnostic_init [] num dt dl wd kw"
      by (rule labframe_field_bind_shape)
    then show ?thesis
      unfolding PICMI_LabFrameFieldDiagnostic
      by (simp add: PICMI_LabFrameFieldDiagnostic_init_def handle_init_def Let_def)
  next
    case PICMI_LabFrameParticleDiagnostic
    from b'[unfolded PICMI_LabFrameParticleDiagnostic] obtain num dt species dl wd where
      "construct PICMI_LabFrameParticleDiagnostic pos kws =
           PICMI_LabFrameParticleDiagnostic_init [] num dt species dl wd kw"
      by (rule labframe_particle_bind_shape)
    then show ?thesis
      unfolding PICMI_LabFrameParticleDiagnostic
      by (simp add: PICMI_LabFrameParticleDiagnostic_init_def handle_init_def Let_def)
  qed
qed

lemma field_attr:
  assumes cls: "cls = PICMI_FieldDiagnostic \<or> cls = PICMI_ElectrostaticFieldDiagnostic"
    and c: "construct cls pos kws = Inr r"
    and name: "name = ''number_of_cells'' \<or> name = ''lower_bound'' \<or> name = ''upper_bound''"
  shows "\<exists>grid v. supplied cls pos kws ''grid'' = Some grid \<and>
           map_of (attrs r) name = Some v \<and>
           (if supplied cls pos kws name = None \<or> supplied cls pos kws name = Some PyNone
            then getattr grid name = Inr v \<and> name \<in> set (grid_reads r)
            else supplied cls pos kws name = Some v \<and> name \<notin> set (grid_reads r))"
  using name
  by (rule disjE; (elim disjE)?)
     (rule field_geometry[OF cls c], force split: option.splits if_splits)+

lemma field_grid:
  assumes cls: "cls = PICMI_FieldDiagnostic \<or> cls = PICMI_ElectrostaticFieldDiagnostic"
    and c: "construct cls pos kws = Inr r"
  shows "\<exists>grid. supplied cls pos kws ''grid'' = Some grid \<and>
           map_of (attrs r) ''grid'' = Some grid"
  by (rule field_geometry[OF cls c]) blast

lemma field_reads:
  assumes cls: "cls = PICMI_FieldDiagnostic \<or> cls = PICMI_ElectrostaticFieldDiagnostic"
    and c: "construct cls pos kws = Inr r"
  shows "set (grid_reads r) \<subseteq> {''number_of_cells'', ''lower_bound'', ''upper_bound''}"
  by (rule field_geometry[OF cls c]) (auto split: option.splits if_splits)

lemma field_no_reads:
  assumes cls: "cls = PICMI_FieldDiagnostic \<or> cls = PICMI_ElectrostaticFieldDiagnostic"
    and c: "construct cls pos kws = Inr r"
    and "''number_of_cells'' \<notin> set (grid_reads r)"
    and "''lower_bound'' \<notin> set (grid_reads r)"
    and "''upper_bound'' \<notin> set (grid_reads r)"
  shows "grid_reads r = []"
proof (cases "grid_reads r")
  case Nil
  then show ?thesis .
next
  case (Cons x xs)
  then have x: "x \<in> set (grid_reads r)" by simp
  then have "x = ''number_of_cells'' \<or> x = ''lower_bound'' \<or> x = ''upper_bound''"
    using field_reads[OF cls c] by auto
  then show ?thesis using x assms(3-5) by auto
qed

section \<open>The claims\<close>





text \<open>
  Claim C3.  When the call supplies no \<open>data_list\<close>, the stored \<open>data_list\<close> is
  \<open>["rho", "E", "B", "J"]\<close> for the field diagnostic and the lab frame field diagnostic,
  \<open>["rho", "phi"]\<close> for the electrostatic field diagnostic, and
  \<open>["position", "momentum", "weighting"]\<close> for the two particle diagnostics.  The
  construction itself is part of the statement: whenever the arguments bind and, for the two
  field diagnostics, the grid has each geometry attribute the call leaves to it, the
  constructor returns an object, and that object holds the default.  (The default is one
  list object made when the class is defined; no code of the module changes it.)
\<close>

theorem default_data_list:
  assumes "bind_args (params_of cls) (PyObj [] # pos) kws = Inr b"
    and "supplied cls pos kws ''data_list'' = None"
    and "cls = PICMI_FieldDiagnostic \<or> cls = PICMI_ElectrostaticFieldDiagnostic \<Longrightarrow>
         \<exists>grid. supplied cls pos kws ''grid'' = Some grid \<and>
           (\<forall>name \<in> {''number_of_cells'', ''lower_bound'', ''upper_bound''}.
              supplied cls pos kws name = None \<or> supplied cls pos kws name = Some PyNone \<longrightarrow>
              (\<exists>v. getattr grid name = Inr v))"
  shows "\<exists>r. construct cls pos kws = Inr r \<and>
           map_of (attrs r) ''data_list'' =
             Some (PyList (map PyStr
               (case cls of
                  PICMI_FieldDiagnostic \<Rightarrow> [''rho'', ''E'', ''B'', ''J'']
                | PICMI_ElectrostaticFieldDiagnostic \<Rightarrow> [''rho'', ''phi'']
                | PICMI_ParticleDiagnostic \<Rightarrow> [''position'', ''momentum'', ''weighting'']
                | PICMI_LabFrameFieldDiagnostic \<Rightarrow> [''rho'', ''E'', ''B'', ''J'']
                | PICMI_LabFrameParticleDiagnostic \<Rightarrow>
                    [''position'', ''momentum'', ''weighting''])))"
proof -
  let ?d = "PyList (map PyStr
               (case cls of
                  PICMI_FieldDiagnostic \<Rightarrow> [''rho'', ''E'', ''B'', ''J'']
                | PICMI_ElectrostaticFieldDiagnostic \<Rightarrow> [''rho'', ''phi'']
                | PICMI_ParticleDiagnostic \<Rightarrow> [''position'', ''momentum'', ''weighting'']
                | PICMI_LabFrameFieldDiagnostic \<Rightarrow> [''rho'', ''E'', ''B'', ''J'']
                | PICMI_LabFrameParticleDiagnostic \<Rightarrow>
                    [''position'', ''momentum'', ''weighting'']))"
  from construct_succeeds[OF assms(1) assms(3)] obtain r where
    c: "construct cls pos kws = Inr r" by blast
  have p: "(''data_list'', Some ?d) \<in> set (params_of cls)"
    by (cases cls) (simp_all add: params_defs)
  have "map_of (attrs r) ''data_list'' = Some ?d"
    using construct_stored[OF c p] assms(2) by simp
  then show ?thesis using c by blast
qed

text \<open>
  Instances, one for each of the five classes.
\<close>

theorem default_data_list_witness:
  "(\<exists>r. construct PICMI_FieldDiagnostic
          [PyObj [(''number_of_cells'', PyInt 32), (''lower_bound'', PyInt 0),
                  (''upper_bound'', PyInt 1)]] [] = Inr r \<and>
        map_of (attrs r) ''data_list'' =
          Some (PyList [PyStr ''rho'', PyStr ''E'', PyStr ''B'', PyStr ''J''])) \<and>
   (\<exists>r. construct PICMI_ElectrostaticFieldDiagnostic [PyNone]
          [(''number_of_cells'', PyInt 8), (''lower_bound'', PyInt 2),
           (''upper_bound'', PyInt 3)] = Inr r \<and>
        map_of (attrs r) ''data_list'' = Some (PyList [PyStr ''rho'', PyStr ''phi''])) \<and>
   (\<exists>r. construct PICMI_ParticleDiagnostic [] [] = Inr r \<and>
        map_of (attrs r) ''data_list'' =
          Some (PyList [PyStr ''position'', PyStr ''momentum'', PyStr ''weighting''])) \<and>
   (\<exists>r. construct PICMI_LabFrameFieldDiagnostic [PyInt 10, PyInt 2] [] = Inr r \<and>
        map_of (attrs r) ''data_list'' =
          Some (PyList [PyStr ''rho'', PyStr ''E'', PyStr ''B'', PyStr ''J''])) \<and>
   (\<exists>r. construct PICMI_LabFrameParticleDiagnostic [PyInt 10, PyInt 2] [] = Inr r \<and>
        map_of (attrs r) ''data_list'' =
          Some (PyList [PyStr ''position'', PyStr ''momentum'', PyStr ''weighting'']))"
proof (intro conjI)
  let ?g = "PyObj [(''number_of_cells'', PyInt 32), (''lower_bound'', PyInt 0),
                   (''upper_bound'', PyInt 1)]"
  obtain b where b: "bind_args (params_of PICMI_FieldDiagnostic) [PyObj [], ?g] [] = Inr b"
    by (simp add: run_defs)
  have s: "supplied PICMI_FieldDiagnostic [?g] [] ''data_list'' = None"
    by (simp add: run_defs)
  have g: "\<exists>grid. supplied PICMI_FieldDiagnostic [?g] [] ''grid'' = Some grid \<and>
           (\<forall>name \<in> {''number_of_cells'', ''lower_bound'', ''upper_bound''}.
              supplied PICMI_FieldDiagnostic [?g] [] name = None \<or>
              supplied PICMI_FieldDiagnostic [?g] [] name = Some PyNone \<longrightarrow>
              (\<exists>v. getattr grid name = Inr v))"
    by (simp add: run_defs)
  show "\<exists>r. construct PICMI_FieldDiagnostic [?g] [] = Inr r \<and>
        map_of (attrs r) ''data_list'' =
          Some (PyList [PyStr ''rho'', PyStr ''E'', PyStr ''B'', PyStr ''J''])"
    using default_data_list[OF b s g] by simp
next
  let ?kws = "[(''number_of_cells'', PyInt 8), (''lower_bound'', PyInt 2),
               (''upper_bound'', PyInt 3)]"
  obtain b where
    b: "bind_args (params_of PICMI_ElectrostaticFieldDiagnostic) [PyObj [], PyNone] ?kws = Inr b"
    by (simp add: run_defs)
  have s: "supplied PICMI_ElectrostaticFieldDiagnostic [PyNone] ?kws ''data_list'' = None"
    by (simp add: run_defs)
  have g: "\<exists>grid. supplied PICMI_ElectrostaticFieldDiagnostic [PyNone] ?kws ''grid'' = Some grid \<and>
           (\<forall>name \<in> {''number_of_cells'', ''lower_bound'', ''upper_bound''}.
              supplied PICMI_ElectrostaticFieldDiagnostic [PyNone] ?kws name = None \<or>
              supplied PICMI_ElectrostaticFieldDiagnostic [PyNone] ?kws name = Some PyNone \<longrightarrow>
              (\<exists>v. getattr grid name = Inr v))"
    by (simp add: run_defs)
  show "\<exists>r. construct PICMI_ElectrostaticFieldDiagnostic [PyNone] ?kws = Inr r \<and>
        map_of (attrs r) ''data_list'' = Some (PyList [PyStr ''rho'', PyStr ''phi''])"
    using default_data_list[OF b s g] by simp
next
  obtain b where b: "bind_args (params_of PICMI_ParticleDiagnostic) [PyObj []] [] = Inr b"
    by (simp add: run_defs)
  have s: "supplied PICMI_ParticleDiagnostic [] [] ''data_list'' = None"
    by (simp add: run_defs)
  show "\<exists>r. construct PICMI_ParticleDiagnostic [] [] = Inr r \<and>
        map_of (attrs r) ''data_list'' =
          Some (PyList [PyStr ''position'', PyStr ''momentum'', PyStr ''weighting''])"
    using default_data_list[OF b s] by simp
next
  obtain b where
    b: "bind_args (params_of PICMI_LabFrameFieldDiagnostic) [PyObj [], PyInt 10, PyInt 2] [] =
          Inr b"
    by (simp add: run_defs)
  have s: "supplied PICMI_LabFrameFieldDiagnostic [PyInt 10, PyInt 2] [] ''data_list'' = None"
    by (simp add: run_defs)
  show "\<exists>r. construct PICMI_LabFrameFieldDiagnostic [PyInt 10, PyInt 2] [] = Inr r \<and>
        map_of (attrs r) ''data_list'' =
          Some (PyList [PyStr ''rho'', PyStr ''E'', PyStr ''B'', PyStr ''J''])"
    using default_data_list[OF b s] by simp
next
  obtain b where
    b: "bind_args (params_of PICMI_LabFrameParticleDiagnostic) [PyObj [], PyInt 10, PyInt 2] [] =
          Inr b"
    by (simp add: run_defs)
  have s: "supplied PICMI_LabFrameParticleDiagnostic [PyInt 10, PyInt 2] [] ''data_list'' = None"
    by (simp add: run_defs)
  show "\<exists>r. construct PICMI_LabFrameParticleDiagnostic [PyInt 10, PyInt 2] [] = Inr r \<and>
        map_of (attrs r) ''data_list'' =
          Some (PyList [PyStr ''position'', PyStr ''momentum'', PyStr ''weighting''])"
    using default_data_list[OF b s] by simp
qed

text \<open>
  Claim C4.  After every successful construction of a field diagnostic each of the three
  geometry attributes is present, and its value is the caller's argument when that is
  supplied and not \<open>None\<close>, and the attribute of \<open>grid\<close> otherwise.  (The stored value is
  then whatever the grid holds, which may itself be \<open>None\<close>.)
\<close>

theorem geometry_always_populated:
  assumes "cls = PICMI_FieldDiagnostic \<or> cls = PICMI_ElectrostaticFieldDiagnostic"
    and "construct cls pos kws = Inr r"
    and "name = ''number_of_cells'' \<or> name = ''lower_bound'' \<or> name = ''upper_bound''"
  shows "\<exists>grid v. supplied cls pos kws ''grid'' = Some grid \<and>
           map_of (attrs r) name = Some v \<and>
           (if supplied cls pos kws name = None \<or> supplied cls pos kws name = Some PyNone
            then getattr grid name = Inr v
            else supplied cls pos kws name = Some v)"
  using field_attr[OF assms] by (auto split: if_splits)

text \<open>
  An instance: \<open>upper_bound\<close> is supplied and \<open>lower_bound\<close> comes from the grid.
\<close>

theorem geometry_always_populated_witness:
  "\<exists>r. construct PICMI_FieldDiagnostic
          [PyObj [(''number_of_cells'', PyInt 32), (''lower_bound'', PyInt 0),
                  (''upper_bound'', PyInt 1)]]
          [(''upper_bound'', PyInt 7)] = Inr r \<and>
        map_of (attrs r) ''lower_bound'' = Some (PyInt 0)"
proof -
  let ?g = "PyObj [(''number_of_cells'', PyInt 32), (''lower_bound'', PyInt 0),
                   (''upper_bound'', PyInt 1)]"
  let ?kws = "[(''upper_bound'', PyInt 7)]"
  obtain r where c: "construct PICMI_FieldDiagnostic [?g] ?kws = Inr r"
    by (simp add: run_defs)
  have s: "supplied PICMI_FieldDiagnostic [?g] ?kws ''grid'' = Some ?g"
    and o: "supplied PICMI_FieldDiagnostic [?g] ?kws ''lower_bound'' = None"
    by (simp_all add: run_defs)
  show ?thesis
    using geometry_always_populated[OF disjI1[OF refl] c disjI2[OF disjI1[OF refl]]] c s o
    by auto
qed

text \<open>
  Claim C5, as amended.  The claim says that a field diagnostic constructed without a grid
  and without geometry fails with a missing-attribute fault, and that no other fault class
  can be raised.  What holds of the constructor:
  \<^item> a call whose arguments do not bind (for one, a call that omits the required \<open>grid\<close>)
    fails with \<open>TypeError\<close>;
  \<^item> when the arguments bind, the first read of the grid that fails, in the order
    \<open>number_of_cells\<close>, \<open>lower_bound\<close>, \<open>upper_bound\<close> and among the arguments that are
    omitted or \<open>None\<close>, ends the construction with the very fault that read raised, whatever
    its class: nothing catches it;
  \<^item> in particular \<open>grid = None\<close> with some geometry argument omitted or \<open>None\<close> fails with
    \<open>AttributeError\<close>;
  \<^item> when every such read succeeds, the body raises nothing of its own: the outcome of the
    construction is the outcome of its last statement, \<open>self.handle_init(kw)\<close>.
  The statement does not depend on what \<open>handle_init\<close> does.
\<close>

theorem field_construction_faults:
  assumes "cls = PICMI_FieldDiagnostic \<or> cls = PICMI_ElectrostaticFieldDiagnostic"
  shows
   "(\<forall>e. bind_args (params_of cls) (PyObj [] # pos) kws = Inl e \<longrightarrow>
        construct cls pos kws = Inl TypeError) \<and>
    (\<forall>vals kw grid.
        bind_args (params_of cls) (PyObj [] # pos) kws = Inr (vals, kw) \<longrightarrow>
        supplied cls pos kws ''grid'' = Some grid \<longrightarrow>
        (\<forall>e.
           ((supplied cls pos kws ''number_of_cells'' = None \<or>
             supplied cls pos kws ''number_of_cells'' = Some PyNone) \<and>
            getattr grid ''number_of_cells'' = Inl e) \<or>
           ((supplied cls pos kws ''number_of_cells'' = None \<or>
             supplied cls pos kws ''number_of_cells'' = Some PyNone \<longrightarrow>
               (\<exists>v. getattr grid ''number_of_cells'' = Inr v)) \<and>
            (supplied cls pos kws ''lower_bound'' = None \<or>
             supplied cls pos kws ''lower_bound'' = Some PyNone) \<and>
            getattr grid ''lower_bound'' = Inl e) \<or>
           ((supplied cls pos kws ''number_of_cells'' = None \<or>
             supplied cls pos kws ''number_of_cells'' = Some PyNone \<longrightarrow>
               (\<exists>v. getattr grid ''number_of_cells'' = Inr v)) \<and>
            (supplied cls pos kws ''lower_bound'' = None \<or>
             supplied cls pos kws ''lower_bound'' = Some PyNone \<longrightarrow>
               (\<exists>v. getattr grid ''lower_bound'' = Inr v)) \<and>
            (supplied cls pos kws ''upper_bound'' = None \<or>
             supplied cls pos kws ''upper_bound'' = Some PyNone) \<and>
            getattr grid ''upper_bound'' = Inl e)
           \<longrightarrow> construct cls pos kws = Inl e) \<and>
        (grid = PyNone \<and>
         (\<exists>name \<in> {''number_of_cells'', ''lower_bound'', ''upper_bound''}.
            supplied cls pos kws name = None \<or> supplied cls pos kws name = Some PyNone)
         \<longrightarrow> construct cls pos kws = Inl AttributeError) \<and>
        ((\<forall>name \<in> {''number_of_cells'', ''lower_bound'', ''upper_bound''}.
            supplied cls pos kws name = None \<or> supplied cls pos kws name = Some PyNone \<longrightarrow>
            (\<exists>v. getattr grid name = Inr v))
         \<longrightarrow> (\<exists>self reads.
                construct cls pos kws =
                  (case handle_init self kw of
                     Inl e \<Rightarrow> Inl e
                   | Inr s \<Rightarrow> Inr \<lparr>attrs = s, grid_reads = reads\<rparr>))))"
proof (intro conjI allI impI)
  fix e assume "bind_args (params_of cls) (PyObj [] # pos) kws = Inl e"
  then show "construct cls pos kws = Inl TypeError"
    using bind_args_error[of "params_of cls" "PyObj [] # pos" kws e]
    by (simp add: construct_def)
next
  fix vals kw grid e
  assume b: "bind_args (params_of cls) (PyObj [] # pos) kws = Inr (vals, kw)"
    and sg: "supplied cls pos kws ''grid'' = Some grid"
    and f: "((supplied cls pos kws ''number_of_cells'' = None \<or>
             supplied cls pos kws ''number_of_cells'' = Some PyNone) \<and>
            getattr grid ''number_of_cells'' = Inl e) \<or>
           ((supplied cls pos kws ''number_of_cells'' = None \<or>
             supplied cls pos kws ''number_of_cells'' = Some PyNone \<longrightarrow>
               (\<exists>v. getattr grid ''number_of_cells'' = Inr v)) \<and>
            (supplied cls pos kws ''lower_bound'' = None \<or>
             supplied cls pos kws ''lower_bound'' = Some PyNone) \<and>
            getattr grid ''lower_bound'' = Inl e) \<or>
           ((supplied cls pos kws ''number_of_cells'' = None \<or>
             supplied cls pos kws ''number_of_cells'' = Some PyNone \<longrightarrow>
               (\<exists>v. getattr grid ''number_of_cells'' = Inr v)) \<and>
            (supplied cls pos kws ''lower_bound'' = None \<or>
             supplied cls pos kws ''lower_bound'' = Some PyNone \<longrightarrow>
               (\<exists>v. getattr grid ''lower_bound'' = Inr v)) \<and>
            (supplied cls pos kws ''upper_bound'' = None \<or>
             supplied cls pos kws ''upper_bound'' = Some PyNone) \<and>
            getattr grid ''upper_bound'' = Inl e)"
  from assms b obtain grid' period dl wd smin smax noc lb ub where
    v: "vals = [PyObj [], grid', period, dl, wd, smin, smax, noc, lb, ub]"
    and c: "construct cls pos kws =
           PICMI_FieldDiagnostic_init [] grid' period dl wd smin smax noc lb ub kw"
    by (rule field_bind_shape)
  note fb = field_bound[OF assms b[unfolded v]]
  have gg: "grid' = grid" using fb(1) sg by simp
  have om: "\<And>name. (supplied cls pos kws name = None \<or> supplied cls pos kws name = Some PyNone) =
     ((case supplied cls pos kws name of Some a \<Rightarrow> a | None \<Rightarrow> PyNone) = PyNone)"
    by (simp split: option.splits)
  show "construct cls pos kws = Inl e"
    unfolding c gg
    by (rule field_init_read_fails) (use f in \<open>simp only: om fb(2)[symmetric] fb(3)[symmetric] fb(4)[symmetric]\<close>)
next
  fix vals kw grid
  assume b: "bind_args (params_of cls) (PyObj [] # pos) kws = Inr (vals, kw)"
    and sg: "supplied cls pos kws ''grid'' = Some grid"
    and n: "grid = PyNone \<and>
         (\<exists>name \<in> {''number_of_cells'', ''lower_bound'', ''upper_bound''}.
            supplied cls pos kws name = None \<or> supplied cls pos kws name = Some PyNone)"
  from assms b obtain grid' period dl wd smin smax noc lb ub where
    v: "vals = [PyObj [], grid', period, dl, wd, smin, smax, noc, lb, ub]"
    and c: "construct cls pos kws =
           PICMI_FieldDiagnostic_init [] grid' period dl wd smin smax noc lb ub kw"
    by (rule field_bind_shape)
  note fb = field_bound[OF assms b[unfolded v]]
  have gg: "grid' = PyNone" using fb(1) sg n by simp
  have some: "noc = PyNone \<or> lb = PyNone \<or> ub = PyNone"
    using n fb(2,3,4) by (auto split: option.splits)
  show "construct cls pos kws = Inl AttributeError"
    unfolding c gg
    by (rule field_init_read_fails) (use some in auto)
next
  fix vals kw grid
  assume b: "bind_args (params_of cls) (PyObj [] # pos) kws = Inr (vals, kw)"
    and sg: "supplied cls pos kws ''grid'' = Some grid"
    and ok: "\<forall>name \<in> {''number_of_cells'', ''lower_bound'', ''upper_bound''}.
            supplied cls pos kws name = None \<or> supplied cls pos kws name = Some PyNone \<longrightarrow>
            (\<exists>v. getattr grid name = Inr v)"
  from assms b obtain grid' period dl wd smin smax noc lb ub where
    v: "vals = [PyObj [], grid', period, dl, wd, smin, smax, noc, lb, ub]"
    and c: "construct cls pos kws =
           PICMI_FieldDiagnostic_init [] grid' period dl wd smin smax noc lb ub kw"
    by (rule field_bind_shape)
  note fb = field_bound[OF assms b[unfolded v]]
  have gg: "grid' = grid" using fb(1) sg by simp
  have n: "noc = PyNone \<longrightarrow> (\<exists>v. getattr grid ''number_of_cells'' = Inr v)"
    using ok fb(2) by (auto split: option.splits)
  have l: "lb = PyNone \<longrightarrow> (\<exists>v. getattr grid ''lower_bound'' = Inr v)"
    using ok fb(3) by (auto split: option.splits)
  have u: "ub = PyNone \<longrightarrow> (\<exists>v. getattr grid ''upper_bound'' = Inr v)"
    using ok fb(4) by (auto split: option.splits)
  show "\<exists>self reads.
                construct cls pos kws =
                  (case handle_init self kw of
                     Inl e \<Rightarrow> Inl e
                   | Inr s \<Rightarrow> Inr \<lparr>attrs = s, grid_reads = reads\<rparr>)"
    unfolding c gg by (rule field_init_reads_succeed[OF n l u])
qed

text \<open>
  Instances: \<open>grid = None\<close> without geometry raises \<open>AttributeError\<close>; a grid whose
  \<open>lower_bound\<close> is a property that raises \<open>ValueError\<close> makes the construction raise
  \<open>ValueError\<close>; a call without \<open>grid\<close> does not bind; with a grid that has the three
  attributes the construction returns an object (here \<open>handle_init\<close> as the specification
  describes it is used).
\<close>

theorem field_construction_faults_witness:
  "construct PICMI_FieldDiagnostic [PyNone] [] = Inl AttributeError \<and>
   construct PICMI_ElectrostaticFieldDiagnostic
     [PyComputed [(''number_of_cells'', Inr (PyInt 4)),
                  (''lower_bound'', Inl (OtherError ''ValueError''))]] [] =
     Inl (OtherError ''ValueError'') \<and>
   construct PICMI_ElectrostaticFieldDiagnostic [] [(''period'', PyInt 2)] = Inl TypeError \<and>
   (\<exists>r. construct PICMI_FieldDiagnostic
          [PyObj [(''number_of_cells'', PyInt 32), (''lower_bound'', PyInt 0),
                  (''upper_bound'', PyInt 1)]] [] = Inr r)"
proof (intro conjI)
  obtain vals kw where
    b: "bind_args (params_of PICMI_FieldDiagnostic) [PyObj [], PyNone] [] = Inr (vals, kw)"
    by (simp add: run_defs)
  have s: "supplied PICMI_FieldDiagnostic [PyNone] [] ''grid'' = Some PyNone"
    and o: "supplied PICMI_FieldDiagnostic [PyNone] [] ''number_of_cells'' = None"
    by (simp_all add: run_defs)
  show "construct PICMI_FieldDiagnostic [PyNone] [] = Inl AttributeError"
    using field_construction_faults[OF disjI1[OF refl], of "[PyNone]" "[]"] b s o
    by blast
next
  let ?g = "PyComputed [(''number_of_cells'', Inr (PyInt 4)),
                        (''lower_bound'', Inl (OtherError ''ValueError''))]"
  obtain vals kw where
    b: "bind_args (params_of PICMI_ElectrostaticFieldDiagnostic) [PyObj [], ?g] [] =
          Inr (vals, kw)"
    by (simp add: run_defs)
  have s: "supplied PICMI_ElectrostaticFieldDiagnostic [?g] [] ''grid'' = Some ?g"
    and o: "supplied PICMI_ElectrostaticFieldDiagnostic [?g] [] ''number_of_cells'' = None"
       "supplied PICMI_ElectrostaticFieldDiagnostic [?g] [] ''lower_bound'' = None"
    by (simp_all add: run_defs)
  have r: "getattr ?g ''number_of_cells'' = Inr (PyInt 4)"
     "getattr ?g ''lower_bound'' = Inl (OtherError ''ValueError'')"
    by simp_all
  show "construct PICMI_ElectrostaticFieldDiagnostic [?g] [] = Inl (OtherError ''ValueError'')"
    using field_construction_faults[OF disjI2[OF refl], of "[?g]" "[]"] b s o r
    by blast
next
  obtain e where e: "bind_args (params_of PICMI_ElectrostaticFieldDiagnostic) [PyObj []]
                       [(''period'', PyInt 2)] = Inl e"
    by (simp add: run_defs)
  show "construct PICMI_ElectrostaticFieldDiagnostic [] [(''period'', PyInt 2)] = Inl TypeError"
    using field_construction_faults[OF disjI2[OF refl], of "[]" "[(''period'', PyInt 2)]"] e
    by blast
next
  let ?g = "PyObj [(''number_of_cells'', PyInt 32), (''lower_bound'', PyInt 0),
                   (''upper_bound'', PyInt 1)]"
  obtain vals kw where
    b: "bind_args (params_of PICMI_FieldDiagnostic) [PyObj [], ?g] [] = Inr (vals, kw)"
    by (simp add: run_defs)
  have s: "supplied PICMI_FieldDiagnostic [?g] [] ''grid'' = Some ?g"
    by (simp add: run_defs)
  have ok: "\<forall>name \<in> {''number_of_cells'', ''lower_bound'', ''upper_bound''}.
            supplied PICMI_FieldDiagnostic [?g] [] name = None \<or>
            supplied PICMI_FieldDiagnostic [?g] [] name = Some PyNone \<longrightarrow>
            (\<exists>v. getattr ?g name = Inr v)"
    by simp
  from field_construction_faults[OF disjI1[OF refl], of "[?g]" "[]"] b s ok
  obtain self reads where
    "construct PICMI_FieldDiagnostic [?g] [] =
       (case handle_init self kw of
          Inl e \<Rightarrow> Inl e
        | Inr s \<Rightarrow> Inr \<lparr>attrs = s, grid_reads = reads\<rparr>)"
    by blast
  then show "\<exists>r. construct PICMI_FieldDiagnostic [?g] [] = Inr r"
    by (simp add: handle_init_def)
qed

text \<open>
  The claim as stated fails: called with no argument at all, hence without a grid and without
  geometry, the constructor raises \<open>TypeError\<close>, not \<open>AttributeError\<close>.
\<close>

theorem field_construction_faults_counterexample:
  "construct PICMI_FieldDiagnostic [] [] = Inl TypeError \<and>
   construct PICMI_FieldDiagnostic [] [] \<noteq> Inl AttributeError"
  by (simp add: run_defs)

text \<open>
  Claim C6.  A lab frame diagnostic requires \<open>num_snapshots\<close> and \<open>dt_snapshots\<close>: a call
  that omits either fails (with \<open>TypeError\<close>); a call whose arguments bind supplies both,
  returns an object, and the object stores the two supplied values.
\<close>

theorem labframe_requires_snapshots:
  assumes "cls = PICMI_LabFrameFieldDiagnostic \<or> cls = PICMI_LabFrameParticleDiagnostic"
  shows "(supplied cls pos kws ''num_snapshots'' = None \<or>
          supplied cls pos kws ''dt_snapshots'' = None \<longrightarrow>
            construct cls pos kws = Inl TypeError) \<and>
         (\<forall>b. bind_args (params_of cls) (PyObj [] # pos) kws = Inr b \<longrightarrow>
            (\<exists>r n d. construct cls pos kws = Inr r \<and>
                   supplied cls pos kws ''num_snapshots'' = Some n \<and>
                   supplied cls pos kws ''dt_snapshots'' = Some d \<and>
                   map_of (attrs r) ''num_snapshots'' = Some n \<and>
                   map_of (attrs r) ''dt_snapshots'' = Some d))"
proof -
  have pn: "(''num_snapshots'', None) \<in> set (params_of cls)"
    and pd: "(''dt_snapshots'', None) \<in> set (params_of cls)"
    using assms by (auto simp: params_defs)
  have nf: "\<not> (cls = PICMI_FieldDiagnostic \<or> cls = PICMI_ElectrostaticFieldDiagnostic)"
    using assms by auto
  have stored: "\<exists>r n d. construct cls pos kws = Inr r \<and>
                   supplied cls pos kws ''num_snapshots'' = Some n \<and>
                   supplied cls pos kws ''dt_snapshots'' = Some d \<and>
                   map_of (attrs r) ''num_snapshots'' = Some n \<and>
                   map_of (attrs r) ''dt_snapshots'' = Some d"
    if b: "bind_args (params_of cls) (PyObj [] # pos) kws = Inr b" for b
  proof -
    obtain r where c: "construct cls pos kws = Inr r"
      using construct_succeeds[OF b] nf by blast
    show ?thesis
      using construct_stored[OF c pn] construct_stored[OF c pd] c
      by (auto split: option.splits)
  qed
  have fails: "construct cls pos kws = Inl TypeError"
    if o: "supplied cls pos kws ''num_snapshots'' = None \<or>
           supplied cls pos kws ''dt_snapshots'' = None"
  proof -
    have "\<And>b. bind_args (params_of cls) (PyObj [] # pos) kws \<noteq> Inr b"
    proof
      fix b assume "bind_args (params_of cls) (PyObj [] # pos) kws = Inr b"
      then obtain vals kw where
        b: "bind_args (params_of cls) (PyObj [] # pos) kws = Inr (vals, kw)"
        by (cases b) simp
      show False
        using supplied_bound[OF b pn] supplied_bound[OF b pd] o by auto
    qed
    then obtain e' where "bind_args (params_of cls) (PyObj [] # pos) kws = Inl e'"
      by (cases "bind_args (params_of cls) (PyObj [] # pos) kws") auto
    then show ?thesis
      using bind_args_error[of "params_of cls" "PyObj [] # pos" kws e']
      by (simp add: construct_def)
  qed
  show ?thesis using stored fails by blast
qed

text \<open>
  Instances for both classes: an argument missing, and both supplied.
\<close>

theorem labframe_requires_snapshots_witness:
  "construct PICMI_LabFrameFieldDiagnostic [PyInt 10] [] = Inl TypeError \<and>
   construct PICMI_LabFrameParticleDiagnostic [] [(''dt_snapshots'', PyInt 2)] = Inl TypeError \<and>
   (\<exists>r. construct PICMI_LabFrameFieldDiagnostic [PyInt 10] [(''dt_snapshots'', PyInt 2)] = Inr r \<and>
        map_of (attrs r) ''num_snapshots'' = Some (PyInt 10) \<and>
        map_of (attrs r) ''dt_snapshots'' = Some (PyInt 2)) \<and>
   (\<exists>r. construct PICMI_LabFrameParticleDiagnostic [PyInt 7, PyInt 3] [] = Inr r \<and>
        map_of (attrs r) ''num_snapshots'' = Some (PyInt 7) \<and>
        map_of (attrs r) ''dt_snapshots'' = Some (PyInt 3))"
proof (intro conjI)
  have od: "supplied PICMI_LabFrameFieldDiagnostic [PyInt 10] [] ''dt_snapshots'' = None"
    by (simp add: run_defs)
  show "construct PICMI_LabFrameFieldDiagnostic [PyInt 10] [] = Inl TypeError"
    using labframe_requires_snapshots[OF disjI1[OF refl], of "[PyInt 10]" "[]"] od by blast
next
  have on: "supplied PICMI_LabFrameParticleDiagnostic [] [(''dt_snapshots'', PyInt 2)]
               ''num_snapshots'' = None"
    by (simp add: run_defs)
  show "construct PICMI_LabFrameParticleDiagnostic [] [(''dt_snapshots'', PyInt 2)] =
          Inl TypeError"
    using labframe_requires_snapshots[OF disjI2[OF refl], of "[]" "[(''dt_snapshots'', PyInt 2)]"]
      on by blast
next
  let ?kws = "[(''dt_snapshots'', PyInt 2)]"
  obtain b where
    b: "bind_args (params_of PICMI_LabFrameFieldDiagnostic) [PyObj [], PyInt 10] ?kws = Inr b"
    by (simp add: run_defs)
  have sn: "supplied PICMI_LabFrameFieldDiagnostic [PyInt 10] ?kws ''num_snapshots'' =
              Some (PyInt 10)"
    and sd: "supplied PICMI_LabFrameFieldDiagnostic [PyInt 10] ?kws ''dt_snapshots'' =
              Some (PyInt 2)"
    by (simp_all add: run_defs)
  show "\<exists>r. construct PICMI_LabFrameFieldDiagnostic [PyInt 10] ?kws = Inr r \<and>
        map_of (attrs r) ''num_snapshots'' = Some (PyInt 10) \<and>
        map_of (attrs r) ''dt_snapshots'' = Some (PyInt 2)"
    using labframe_requires_snapshots[OF disjI1[OF refl], of "[PyInt 10]" ?kws] b sn sd
    by auto
next
  obtain b where
    b: "bind_args (params_of PICMI_LabFrameParticleDiagnostic) [PyObj [], PyInt 7, PyInt 3] [] =
          Inr b"
    by (simp add: run_defs)
  have sn: "supplied PICMI_LabFrameParticleDiagnostic [PyInt 7, PyInt 3] [] ''num_snapshots'' =
              Some (PyInt 7)"
    and sd: "supplied PICMI_LabFrameParticleDiagnostic [PyInt 7, PyInt 3] [] ''dt_snapshots'' =
              Some (PyInt 3)"
    by (simp_all add: run_defs)
  show "\<exists>r. construct PICMI_LabFrameParticleDiagnostic [PyInt 7, PyInt 3] [] = Inr r \<and>
        map_of (attrs r) ''num_snapshots'' = Some (PyInt 7) \<and>
        map_of (attrs r) ''dt_snapshots'' = Some (PyInt 3)"
    using labframe_requires_snapshots[OF disjI2[OF refl], of "[PyInt 7, PyInt 3]" "[]"] b sn sd
    by auto
qed



text \<open>
  Claim C8.  Extra keyword arguments (keywords that name no parameter) do not make a
  construction fail, and each of them is an attribute of the constructed object with the
  value given; the other attributes and the reads of the grid are as without the extras.
  This rests on \<open>handle_init\<close> as the specification describes it.
\<close>

theorem extra_keywords_are_stored:
  assumes "construct cls pos kws = Inr r"
    and "distinct (map fst (kws @ extra))"
    and "\<forall>k \<in> set (map fst extra). k \<notin> set (map fst (params_of cls))"
  shows "\<exists>r'. construct cls pos (kws @ extra) = Inr r' \<and>
           (\<forall>(k, v) \<in> set extra. map_of (attrs r') k = Some v) \<and>
           (\<forall>k. k \<notin> set (map fst extra) \<longrightarrow> map_of (attrs r') k = map_of (attrs r) k) \<and>
           grid_reads r' = grid_reads r"
proof -
  let ?r' = "r\<lparr>attrs := fold (\<lambda>(k, v) s. setattr s k v) extra (attrs r)\<rparr>"
  have c: "construct cls pos (kws @ extra) = Inr ?r'"
    using assms(1)
    unfolding construct_def bind_args_append[OF assms(2,3)]
    by (auto simp: init_of_append split: sum.splits)
  have dx: "distinct (map fst extra)" using assms(2) by simp
  have look: "\<And>k. map_of (attrs ?r') k =
      (case map_of extra k of Some v \<Rightarrow> Some v | None \<Rightarrow> map_of (attrs r) k)"
    using fold_setattr_lookup[OF dx] by simp
  have "\<forall>(k, v) \<in> set extra. map_of (attrs ?r') k = Some v"
    using look dx by auto
  moreover have "\<forall>k. k \<notin> set (map fst extra) \<longrightarrow> map_of (attrs ?r') k = map_of (attrs r) k"
    using look by (auto simp: map_of_eq_None_iff[THEN iffD2] split: option.splits)
  moreover have "grid_reads ?r' = grid_reads r" by simp
  ultimately show ?thesis using c by blast
qed

text \<open>
  An instance with one extra keyword.
\<close>

theorem extra_keywords_are_stored_witness:
  "\<exists>r. construct PICMI_ParticleDiagnostic [] [(''period'', PyInt 4), (''warpx_format'', PyStr ''openpmd'')] = Inr r \<and>
        map_of (attrs r) ''warpx_format'' = Some (PyStr ''openpmd'') \<and>
        map_of (attrs r) ''period'' = Some (PyInt 4)"
proof -
  obtain r where c: "construct PICMI_ParticleDiagnostic [] [(''period'', PyInt 4)] = Inr r"
    and p: "map_of (attrs r) ''period'' = Some (PyInt 4)"
    by (simp add: run_defs)
  have d: "distinct (map fst ([(''period'', PyInt 4)] @ [(''warpx_format'', PyStr ''openpmd'')]))"
    by simp
  have x: "\<forall>k \<in> set (map fst [(''warpx_format'', PyStr ''openpmd'')]).
             k \<notin> set (map fst (params_of PICMI_ParticleDiagnostic))"
    by (simp add: params_defs)
  show ?thesis
    using extra_keywords_are_stored[OF c d x] p by auto
qed

text \<open>
  Claim C9.  For every class that has the parameter, an omitted \<open>write_dir\<close>, \<open>step_min\<close> or
  \<open>step_max\<close> is stored as \<open>None\<close>: not as \<open>'.'\<close> and not as \<open>0\<close>, whatever the docstrings
  say.  (The lab frame classes have \<open>write_dir\<close> only.)  The construction itself is part of
  the statement: whenever the arguments bind and, for the two field diagnostics, the grid has
  each geometry attribute the call leaves to it, the constructor returns an object, and
  that object holds \<open>None\<close>.
\<close>

theorem omitted_optionals_stored_as_None:
  assumes "bind_args (params_of cls) (PyObj [] # pos) kws = Inr b"
    and "name = ''write_dir'' \<or> name = ''step_min'' \<or> name = ''step_max''"
    and "name \<in> set (map fst (params_of cls))"
    and "supplied cls pos kws name = None"
    and "cls = PICMI_FieldDiagnostic \<or> cls = PICMI_ElectrostaticFieldDiagnostic \<Longrightarrow>
         \<exists>grid. supplied cls pos kws ''grid'' = Some grid \<and>
           (\<forall>name \<in> {''number_of_cells'', ''lower_bound'', ''upper_bound''}.
              supplied cls pos kws name = None \<or> supplied cls pos kws name = Some PyNone \<longrightarrow>
              (\<exists>v. getattr grid name = Inr v))"
  shows "\<exists>r. construct cls pos kws = Inr r \<and>
           map_of (attrs r) name = Some PyNone \<and>
           map_of (attrs r) name \<noteq> Some (PyStr ''.'') \<and>
           map_of (attrs r) name \<noteq> Some (PyInt 0)"
proof -
  from construct_succeeds[OF assms(1) assms(5)] obtain r where
    c: "construct cls pos kws = Inr r" by blast
  have p: "(name, Some PyNone) \<in> set (params_of cls)"
    using assms(2,3) by (cases cls) (auto simp: params_defs)
  have g: "name \<notin> {''self'', ''number_of_cells'', ''lower_bound'', ''upper_bound''}"
    using assms(2) by auto
  have "map_of (attrs r) name = Some PyNone"
    using construct_stored[OF c p g] assms(4) by simp
  then show ?thesis using c by auto
qed

text \<open>
  Instances, one for each of the five classes, with \<open>step_min\<close>, \<open>step_max\<close> and
  \<open>write_dir\<close>.
\<close>

theorem omitted_optionals_stored_as_None_witness:
  "(\<exists>r. construct PICMI_FieldDiagnostic
          [PyObj [(''number_of_cells'', PyInt 32), (''lower_bound'', PyInt 0),
                  (''upper_bound'', PyInt 1)]] [] = Inr r \<and>
        map_of (attrs r) ''step_min'' = Some PyNone) \<and>
   (\<exists>r. construct PICMI_ElectrostaticFieldDiagnostic
          [PyObj [(''number_of_cells'', PyInt 32), (''lower_bound'', PyInt 0),
                  (''upper_bound'', PyInt 1)]] [] = Inr r \<and>
        map_of (attrs r) ''step_max'' = Some PyNone) \<and>
   (\<exists>r. construct PICMI_ParticleDiagnostic [] [] = Inr r \<and>
        map_of (attrs r) ''write_dir'' = Some PyNone) \<and>
   (\<exists>r. construct PICMI_LabFrameFieldDiagnostic [PyInt 10, PyInt 2] [] = Inr r \<and>
        map_of (attrs r) ''write_dir'' = Some PyNone) \<and>
   (\<exists>r. construct PICMI_LabFrameParticleDiagnostic [PyInt 10, PyInt 2] [] = Inr r \<and>
        map_of (attrs r) ''write_dir'' = Some PyNone)"
proof (intro conjI)
  let ?g = "PyObj [(''number_of_cells'', PyInt 32), (''lower_bound'', PyInt 0),
                   (''upper_bound'', PyInt 1)]"
  obtain b where b: "bind_args (params_of PICMI_FieldDiagnostic) [PyObj [], ?g] [] = Inr b"
    by (simp add: run_defs)
  have n: "''step_min'' \<in> set (map fst (params_of PICMI_FieldDiagnostic))"
    and s: "supplied PICMI_FieldDiagnostic [?g] [] ''step_min'' = None"
    by (simp_all add: run_defs)
  have g: "\<exists>grid. supplied PICMI_FieldDiagnostic [?g] [] ''grid'' = Some grid \<and>
           (\<forall>name \<in> {''number_of_cells'', ''lower_bound'', ''upper_bound''}.
              supplied PICMI_FieldDiagnostic [?g] [] name = None \<or>
              supplied PICMI_FieldDiagnostic [?g] [] name = Some PyNone \<longrightarrow>
              (\<exists>v. getattr grid name = Inr v))"
    by (simp add: run_defs)
  show "\<exists>r. construct PICMI_FieldDiagnostic [?g] [] = Inr r \<and>
        map_of (attrs r) ''step_min'' = Some PyNone"
    using omitted_optionals_stored_as_None[OF b disjI2[OF disjI1[OF refl]] n s g] by blast
next
  let ?g = "PyObj [(''number_of_cells'', PyInt 32), (''lower_bound'', PyInt 0),
                   (''upper_bound'', PyInt 1)]"
  obtain b where
    b: "bind_args (params_of PICMI_ElectrostaticFieldDiagnostic) [PyObj [], ?g] [] = Inr b"
    by (simp add: run_defs)
  have n: "''step_max'' \<in> set (map fst (params_of PICMI_ElectrostaticFieldDiagnostic))"
    and s: "supplied PICMI_ElectrostaticFieldDiagnostic [?g] [] ''step_max'' = None"
    by (simp_all add: run_defs)
  have g: "\<exists>grid. supplied PICMI_ElectrostaticFieldDiagnostic [?g] [] ''grid'' = Some grid \<and>
           (\<forall>name \<in> {''number_of_cells'', ''lower_bound'', ''upper_bound''}.
              supplied PICMI_ElectrostaticFieldDiagnostic [?g] [] name = None \<or>
              supplied PICMI_ElectrostaticFieldDiagnostic [?g] [] name = Some PyNone \<longrightarrow>
              (\<exists>v. getattr grid name = Inr v))"
    by (simp add: run_defs)
  show "\<exists>r. construct PICMI_ElectrostaticFieldDiagnostic [?g] [] = Inr r \<and>
        map_of (attrs r) ''step_max'' = Some PyNone"
    using omitted_optionals_stored_as_None[OF b disjI2[OF disjI2[OF refl]] n s g] by blast
next
  obtain b where b: "bind_args (params_of PICMI_ParticleDiagnostic) [PyObj []] [] = Inr b"
    by (simp add: run_defs)
  have n: "''write_dir'' \<in> set (map fst (params_of PICMI_ParticleDiagnostic))"
    and s: "supplied PICMI_ParticleDiagnostic [] [] ''write_dir'' = None"
    by (simp_all add: run_defs)
  show "\<exists>r. construct PICMI_ParticleDiagnostic [] [] = Inr r \<and>
        map_of (attrs r) ''write_dir'' = Some PyNone"
    using omitted_optionals_stored_as_None[OF b disjI1[OF refl] n s] by auto
next
  obtain b where
    b: "bind_args (params_of PICMI_LabFrameFieldDiagnostic) [PyObj [], PyInt 10, PyInt 2] [] =
          Inr b"
    by (simp add: run_defs)
  have n: "''write_dir'' \<in> set (map fst (params_of PICMI_LabFrameFieldDiagnostic))"
    and s: "supplied PICMI_LabFrameFieldDiagnostic [PyInt 10, PyInt 2] [] ''write_dir'' = None"
    by (simp_all add: run_defs)
  show "\<exists>r. construct PICMI_LabFrameFieldDiagnostic [PyInt 10, PyInt 2] [] = Inr r \<and>
        map_of (attrs r) ''write_dir'' = Some PyNone"
    using omitted_optionals_stored_as_None[OF b disjI1[OF refl] n s] by auto
next
  obtain b where
    b: "bind_args (params_of PICMI_LabFrameParticleDiagnostic) [PyObj [], PyInt 10, PyInt 2] [] =
          Inr b"
    by (simp add: run_defs)
  have n: "''write_dir'' \<in> set (map fst (params_of PICMI_LabFrameParticleDiagnostic))"
    and s: "supplied PICMI_LabFrameParticleDiagnostic [PyInt 10, PyInt 2] [] ''write_dir'' = None"
    by (simp_all add: run_defs)
  show "\<exists>r. construct PICMI_LabFrameParticleDiagnostic [PyInt 10, PyInt 2] [] = Inr r \<and>
        map_of (attrs r) ''write_dir'' = Some PyNone"
    using omitted_optionals_stored_as_None[OF b disjI1[OF refl] n s] by auto
qed

text \<open>
  Claim C10.  When the arguments of a field diagnostic bind and all three geometry arguments
  are supplied and different from \<open>None\<close>, the construction succeeds whatever \<open>grid\<close> is
  (\<open>None\<close>, or an object without the attributes), no attribute of \<open>grid\<close> is read, and the
  attribute \<open>grid\<close> holds the value supplied.
\<close>

theorem explicit_geometry_succeeds_without_grid_access:
  assumes "cls = PICMI_FieldDiagnostic \<or> cls = PICMI_ElectrostaticFieldDiagnostic"
    and "bind_args (params_of cls) (PyObj [] # pos) kws = Inr b"
    and "supplied cls pos kws ''number_of_cells'' = Some n" and "n \<noteq> PyNone"
    and "supplied cls pos kws ''lower_bound'' = Some l" and "l \<noteq> PyNone"
    and "supplied cls pos kws ''upper_bound'' = Some u" and "u \<noteq> PyNone"
  shows "\<exists>r grid. construct cls pos kws = Inr r \<and>
           supplied cls pos kws ''grid'' = Some grid \<and>
           map_of (attrs r) ''grid'' = Some grid \<and> grid_reads r = []"
proof -
  obtain vals kw where b': "bind_args (params_of cls) (PyObj [] # pos) kws = Inr (vals, kw)"
    using assms(2) by (cases b) simp
  from assms(1) b' obtain grid period dl wd smin smax noc lb ub where
    v: "vals = [PyObj [], grid, period, dl, wd, smin, smax, noc, lb, ub]"
    and c: "construct cls pos kws =
           PICMI_FieldDiagnostic_init [] grid period dl wd smin smax noc lb ub kw"
    by (rule field_bind_shape)
  note fb = field_bound[OF assms(1) b'[unfolded v]]
  have ne: "noc \<noteq> PyNone" "lb \<noteq> PyNone" "ub \<noteq> PyNone"
    using fb(2,3,4) assms(3-8) by simp_all
  obtain r where r: "construct cls pos kws = Inr r"
    unfolding c
    using field_init_succeeds[of noc grid lb ub "[]" period dl wd smin smax kw] ne
    by blast
  have nr: "''number_of_cells'' \<notin> set (grid_reads r)" "''lower_bound'' \<notin> set (grid_reads r)"
      "''upper_bound'' \<notin> set (grid_reads r)"
    using field_attr[OF assms(1) r, of "''number_of_cells''"]
      field_attr[OF assms(1) r, of "''lower_bound''"]
      field_attr[OF assms(1) r, of "''upper_bound''"] assms(3-8)
    by auto
  have "grid_reads r = []"
    by (rule field_no_reads[OF assms(1) r nr])
  then show ?thesis using r field_grid[OF assms(1) r] by auto
qed

text \<open>
  An instance with \<open>grid = None\<close>.
\<close>

theorem explicit_geometry_succeeds_without_grid_access_witness:
  "\<exists>r. construct PICMI_FieldDiagnostic [PyNone]
          [(''number_of_cells'', PyInt 8), (''lower_bound'', PyInt 2),
           (''upper_bound'', PyInt 3)] = Inr r \<and>
        map_of (attrs r) ''grid'' = Some PyNone \<and> grid_reads r = []"
proof -
  let ?kws = "[(''number_of_cells'', PyInt 8), (''lower_bound'', PyInt 2),
               (''upper_bound'', PyInt 3)]"
  obtain b where b: "bind_args (params_of PICMI_FieldDiagnostic) [PyObj [], PyNone] ?kws = Inr b"
    by (simp add: run_defs)
  have n: "supplied PICMI_FieldDiagnostic [PyNone] ?kws ''number_of_cells'' = Some (PyInt 8)"
    and l: "supplied PICMI_FieldDiagnostic [PyNone] ?kws ''lower_bound'' = Some (PyInt 2)"
    and u: "supplied PICMI_FieldDiagnostic [PyNone] ?kws ''upper_bound'' = Some (PyInt 3)"
    and g: "supplied PICMI_FieldDiagnostic [PyNone] ?kws ''grid'' = Some PyNone"
    by (simp_all add: run_defs)
  show ?thesis
    using explicit_geometry_succeeds_without_grid_access[OF disjI1[OF refl] b n _ l _ u] g
    by auto
qed

end
